theory Spec2Isabelle
  imports Main "HOL-Library.AList" "HOL-Library.Sublist"
begin

section \<open>Strings\<close>

text \<open>
  A string is a list of code units. The model covers the code units up to U+00FF,
  read as Latin-1, which is what \<^typ>\<open>char\<close> holds.
\<close>

definition lower_char :: "char \<Rightarrow> char" where
  "lower_char c =
     (let n = (of_char c :: nat)
      in if (65 \<le> n \<and> n \<le> 90) \<or> (192 \<le> n \<and> n \<le> 222 \<and> n \<noteq> 215)
         then char_of (n + 32) else c)"

definition toLowerCase :: "string \<Rightarrow> string" where
  "toLowerCase s = map lower_char s"

fun startsWith :: "string \<Rightarrow> string \<Rightarrow> bool" where
  "startsWith s [] = True"
| "startsWith [] (c # t) = False"
| "startsWith (d # s) (c # t) = (d = c \<and> startsWith s t)"

text \<open>\<open>str_includes s t\<close> is \<open>s.includes(t)\<close>: \<open>t\<close> occurs in \<open>s\<close> as a contiguous run.\<close>

fun str_includes :: "string \<Rightarrow> string \<Rightarrow> bool" where
  "str_includes [] t = (t = [])"
| "str_includes (c # s) t = (startsWith (c # s) t \<or> str_includes s t)"

text \<open>
  \<open>xs.slice(0, e)\<close>: a negative end counts from the end of the array, and the
  result is clamped to the array.
\<close>

definition slice0 :: "int \<Rightarrow> 'a list \<Rightarrow> 'a list" where
  "slice0 e xs = (if e < 0 then take (length xs - nat (- e)) xs else take (nat e) xs)"

text \<open>The truthiness of an optional string: present and not empty.\<close>

fun truthy :: "string option \<Rightarrow> bool" where
  "truthy None = False"
| "truthy (Some s) = (s \<noteq> [])"

section \<open>The record type of the data service\<close>

record PastVisit =
  date :: string
  diagnosis :: string

record EHRRecord =
  fullName :: string
  age :: int
  gender :: string
  region :: string
  address :: string
  symptoms :: "string list"
  medicationHistory :: "string list"
  pastVisits :: "PastVisit list"
  phoneNumber :: string
  insuranceId :: string

section \<open>searchRecords\<close>

record SearchOptions =
  opt_condition :: "string option"
  opt_medication :: "string option"
  opt_region :: "string option"
  opt_ageMin :: "int option"
  opt_ageMax :: "int option"
  opt_gender :: "string option"
  opt_diagnosis :: "string option"
  opt_limit :: "int option"

text \<open>Each \<open>if (options.x) filtered = filtered.filter(...)\<close> step of searchRecords.\<close>

definition byCondition :: "string option \<Rightarrow> EHRRecord list \<Rightarrow> EHRRecord list" where
  "byCondition c rs =
     (if truthy c
      then filter (\<lambda>r. \<exists>s \<in> set (symptoms r). str_includes (toLowerCase s) (toLowerCase (the c))) rs
      else rs)"

definition byMedication :: "string option \<Rightarrow> EHRRecord list \<Rightarrow> EHRRecord list" where
  "byMedication m rs =
     (if truthy m
      then filter (\<lambda>r. \<exists>s \<in> set (medicationHistory r).
                          str_includes (toLowerCase s) (toLowerCase (the m))) rs
      else rs)"

definition byRegion :: "string option \<Rightarrow> EHRRecord list \<Rightarrow> EHRRecord list" where
  "byRegion g rs =
     (if truthy g
      then filter (\<lambda>r. str_includes (toLowerCase (region r)) (toLowerCase (the g))) rs
      else rs)"

definition byAgeMin :: "int option \<Rightarrow> EHRRecord list \<Rightarrow> EHRRecord list" where
  "byAgeMin a rs = (case a of None \<Rightarrow> rs | Some minAge \<Rightarrow> filter (\<lambda>r. age r \<ge> minAge) rs)"

definition byAgeMax :: "int option \<Rightarrow> EHRRecord list \<Rightarrow> EHRRecord list" where
  "byAgeMax a rs = (case a of None \<Rightarrow> rs | Some maxAge \<Rightarrow> filter (\<lambda>r. age r \<le> maxAge) rs)"

definition byGender :: "string option \<Rightarrow> EHRRecord list \<Rightarrow> EHRRecord list" where
  "byGender g rs =
     (if truthy g
      then filter (\<lambda>r. toLowerCase (gender r) = toLowerCase (the g)) rs
      else rs)"

definition byDiagnosis :: "string option \<Rightarrow> EHRRecord list \<Rightarrow> EHRRecord list" where
  "byDiagnosis d rs =
     (if truthy d
      then filter (\<lambda>r. \<exists>v \<in> set (pastVisits r).
                          str_includes (toLowerCase (diagnosis v)) (toLowerCase (the d))) rs
      else rs)"

text \<open>
  The value of \<open>filtered\<close> when searchRecords reaches its return statement; \<open>rs\<close> is
  what loadEHRData returned.
\<close>

definition searchFiltered :: "SearchOptions \<Rightarrow> EHRRecord list \<Rightarrow> EHRRecord list" where
  "searchFiltered opts rs =
     byDiagnosis (opt_diagnosis opts)
       (byGender (opt_gender opts)
         (byAgeMax (opt_ageMax opts)
           (byAgeMin (opt_ageMin opts)
             (byRegion (opt_region opts)
               (byMedication (opt_medication opts)
                 (byCondition (opt_condition opts) rs))))))"

text \<open>\<open>options.limit || 50\<close>: an absent limit and the limit 0 both give 50.\<close>

definition searchLimit :: "int option \<Rightarrow> int" where
  "searchLimit l = (case l of None \<Rightarrow> 50 | Some n \<Rightarrow> if n = 0 then 50 else n)"

definition searchRecords :: "SearchOptions \<Rightarrow> EHRRecord list \<Rightarrow> EHRRecord list" where
  "searchRecords opts rs = slice0 (searchLimit (opt_limit opts)) (searchFiltered opts rs)"

section \<open>The query route: requests and responses\<close>

record Filters =
  flt_ageMin :: "int option"
  flt_ageMax :: "int option"
  flt_condition :: "string option"
  flt_medication :: "string option"
  flt_region :: "string option"
  flt_gender :: "string option"
  flt_diagnosis :: "string option"

text \<open>A filter request; ages and limits are whole numbers.\<close>

record FilterRequest =
  filters :: Filters
  req_limit :: "int option"

record Stats =
  totalMatched :: nat
  queryTime :: int

text \<open>
  The values found in an object of counts: a number, or the string that \<open>+ 1\<close> makes
  of a value that is not a number.
\<close>

datatype jsval = Num nat | Str string

record ResponseData =
  records :: "EHRRecord list option"
  aggregations :: "(string \<times> jsval) list option"
  stats :: "Stats option"

record QueryResponse =
  success :: bool
  data :: "ResponseData option"
  error :: "string option"

text \<open>\<open>f && f !== "all" ? f : undefined\<close>\<close>

definition unlessAll :: "string option \<Rightarrow> string option" where
  "unlessAll f = (if truthy f \<and> f \<noteq> Some ''all'' then f else None)"

definition filterOptions :: "FilterRequest \<Rightarrow> SearchOptions" where
  "filterOptions request =
     \<lparr> opt_condition = unlessAll (flt_condition (filters request)),
       opt_medication = unlessAll (flt_medication (filters request)),
       opt_region = unlessAll (flt_region (filters request)),
       opt_ageMin = flt_ageMin (filters request),
       opt_ageMax = flt_ageMax (filters request),
       opt_gender = unlessAll (flt_gender (filters request)),
       opt_diagnosis = unlessAll (flt_diagnosis (filters request)),
       opt_limit = Some (case req_limit request of None \<Rightarrow> 100 | Some l \<Rightarrow> l) \<rparr>"

text \<open>
  executeFilterQuery. \<open>startTime\<close> and \<open>endTime\<close> are the two readings of the clock,
  \<open>allRecords\<close> is what loadEHRData returns to searchRecords. On values of the declared
  types nothing in the try block throws, so the catch branch is not reached.
\<close>

definition executeFilterQuery ::
    "int \<Rightarrow> int \<Rightarrow> EHRRecord list \<Rightarrow> FilterRequest \<Rightarrow> QueryResponse" where
  "executeFilterQuery startTime endTime allRecords request =
     (let recs = searchRecords (filterOptions request) allRecords
      in \<lparr> success = True,
           data = Some \<lparr> records = Some recs, aggregations = None,
                         stats = Some \<lparr> totalMatched = length recs,
                                        queryTime = endTime - startTime \<rparr> \<rparr>,
           error = None \<rparr>)"

section \<open>Character classes and regular expressions\<close>

definition isSpace :: "char \<Rightarrow> bool" where
  "isSpace c = (let n = (of_char c :: nat) in (9 \<le> n \<and> n \<le> 13) \<or> n = 32 \<or> n = 160)"

definition isDigit :: "char \<Rightarrow> bool" where
  "isDigit c = (let n = (of_char c :: nat) in 48 \<le> n \<and> n \<le> 57)"

definition isWord :: "char \<Rightarrow> bool" where
  "isWord c =
     (let n = (of_char c :: nat)
      in (65 \<le> n \<and> n \<le> 90) \<or> (97 \<le> n \<and> n \<le> 122) \<or> (48 \<le> n \<and> n \<le> 57) \<or> n = 95)"

definition trim :: "string \<Rightarrow> string" where
  "trim s = rev (dropWhile isSpace (rev (dropWhile isSpace s)))"

text \<open>
  The regular expressions of the source quantify single character classes only, so the
  syntax tree has a quantifier on each atom, capturing groups, a non-capturing
  alternation and the end anchor. All of them carry the \<open>i\<close> flag: a literal character
  is compared ignoring case.
\<close>

datatype cclass = Chr char | WS | WordC | DigitC | AnyC | OneOf "char list" | NoneOf "char list"

fun cmatch :: "cclass \<Rightarrow> char \<Rightarrow> bool" where
  "cmatch (Chr c) d = (lower_char c = lower_char d)"
| "cmatch WS d = isSpace d"
| "cmatch WordC d = isWord d"
| "cmatch DigitC d = isDigit d"
| "cmatch AnyC d = (d \<noteq> CHR 0x0A \<and> d \<noteq> CHR 0x0D)"
| "cmatch (OneOf cs) d = (d \<in> set cs)"
| "cmatch (NoneOf cs) d = (d \<notin> set cs)"

datatype quant = Once | Plus | PlusLazy | Star | Opt

datatype node = Atom cclass quant | Group "node list" | Alt "node list list" | EndAnchor

text \<open>
  The inputs left after one, two, ... characters of the class, while the characters at
  the current position belong to it.
\<close>

fun spans :: "cclass \<Rightarrow> string \<Rightarrow> string list" where
  "spans c [] = []"
| "spans c (d # s) = (if cmatch c d then s # spans c s else [])"

text \<open>
  The inputs a quantified atom can leave, in the order the backtracking matcher tries
  them: a greedy quantifier starts from the longest run, a lazy one from the shortest.
\<close>

fun atom_rests :: "cclass \<Rightarrow> quant \<Rightarrow> string \<Rightarrow> string list" where
  "atom_rests c Once s = take 1 (spans c s)"
| "atom_rests c Plus s = rev (spans c s)"
| "atom_rests c PlusLazy s = spans c s"
| "atom_rests c Star s = rev (spans c s) @ [s]"
| "atom_rests c Opt s = take 1 (spans c s) @ [s]"

text \<open>
  All the ways a pattern matches at the start of \<open>s\<close>, in the matcher's order of
  preference: each is the list of captured groups and the input left over. The match the
  engine reports is the first one. \<open>run_then ns res\<close> continues with the rest \<open>ns\<close> of a
  sequence from each way \<open>res\<close> its first node matched.
\<close>

fun run_node :: "node \<Rightarrow> string \<Rightarrow> (string list \<times> string) list"
  and run_seq :: "node list \<Rightarrow> string \<Rightarrow> (string list \<times> string) list"
  and run_then :: "node list \<Rightarrow> (string list \<times> string) list \<Rightarrow> (string list \<times> string) list"
  and run_alts :: "node list list \<Rightarrow> string \<Rightarrow> (string list \<times> string) list" where
  "run_node (Atom c q) s = map (\<lambda>r. ([], r)) (atom_rests c q s)"
| "run_node (Group ns) s =
     map (\<lambda>(caps, r). (take (length s - length r) s # caps, r)) (run_seq ns s)"
| "run_node (Alt as) s = run_alts as s"
| "run_node EndAnchor s = (if s = [] then [([], [])] else [])"
| "run_seq [] s = [([], s)]"
| "run_seq (n # ns) s = run_then ns (run_node n s)"
| "run_then ns [] = []"
| "run_then ns ((c1, r) # res) = map (\<lambda>(c2, r'). (c1 @ c2, r')) (run_seq ns r) @ run_then ns res"
| "run_alts [] s = []"
| "run_alts (a # as) s = run_seq a s @ run_alts as s"

definition lit :: "string \<Rightarrow> node list" where
  "lit s = map (\<lambda>c. Atom (Chr c) Once) s"

text \<open>\<open>s.match(re)\<close> without the \<open>g\<close> flag: the leftmost match, as its captured groups.\<close>

fun search :: "node list \<Rightarrow> string \<Rightarrow> string list option" where
  "search re [] = (case run_seq re [] of [] \<Rightarrow> None | (caps, r) # v \<Rightarrow> Some caps)"
| "search re (c # s) =
     (case run_seq re (c # s) of [] \<Rightarrow> search re s | (caps, r) # v \<Rightarrow> Some caps)"

text \<open>
  \<open>s.split(re)\<close>: the pattern is tried at each position in turn; \<open>cur\<close> is the piece
  collected since the last separator. An empty match never separates at the start of a
  piece.
\<close>

fun split_loop :: "node list \<Rightarrow> string \<Rightarrow> string \<Rightarrow> string list" where
  "split_loop re [] cur = [cur]"
| "split_loop re (c # s) cur =
     (case run_seq re (c # s) of
        [] \<Rightarrow> split_loop re s (cur @ [c])
      | (caps, r) # v \<Rightarrow>
          if length r < length (c # s) then cur # split_loop re r []
          else if cur = [] then split_loop re s [c]
          else cur # split_loop re s [c])"

definition split_re :: "node list \<Rightarrow> string \<Rightarrow> string list" where
  "split_re re s =
     (if s = [] then (if run_seq re [] = [] then [[]] else []) else split_loop re s [])"

text \<open>\<open>s.split(sep)\<close> for a separator of one character.\<close>

fun split_on :: "char \<Rightarrow> string \<Rightarrow> string \<Rightarrow> string list" where
  "split_on sep [] cur = [cur]"
| "split_on sep (c # s) cur =
     (if c = sep then cur # split_on sep s [] else split_on sep s (cur @ [c]))"

text \<open>
  \<open>s.match(re)\<close> with the \<open>g\<close> flag: the texts of all matches, each search starting
  where the previous match ended.
\<close>

fun match_all :: "node list \<Rightarrow> string \<Rightarrow> string list" where
  "match_all re [] = (case run_seq re [] of [] \<Rightarrow> [] | (caps, r) # v \<Rightarrow> [[]])"
| "match_all re (c # s) =
     (case run_seq re (c # s) of
        [] \<Rightarrow> match_all re s
      | (caps, r) # v \<Rightarrow>
          if length r < length (c # s)
          then take (length (c # s) - length r) (c # s) # match_all re r
          else [] # match_all re s)"

text \<open>
  \<open>parseInt(s, 10)\<close>: leading white space, an optional sign, then the longest run of
  digits; \<open>None\<close> is NaN.
\<close>

definition digitsValue :: "string \<Rightarrow> nat" where
  "digitsValue ds = foldl (\<lambda>acc d. 10 * acc + (of_char d - 48)) 0 ds"

definition parseInt :: "string \<Rightarrow> int option" where
  "parseInt s =
     (let t = dropWhile isSpace s;
          neg = (t \<noteq> [] \<and> hd t = CHR ''-'');
          u = (if t \<noteq> [] \<and> (hd t = CHR ''-'' \<or> hd t = CHR ''+'') then tl t else t);
          ds = takeWhile isDigit u
      in if ds = [] then None
         else Some (if neg then - int (digitsValue ds) else int (digitsValue ds)))"

section \<open>parseSimpleSQL\<close>

record QueryPlan =
  plan_select :: "string list"
  plan_where :: "(string \<times> string) list"
  plan_groupBy :: "string option"
  plan_limit :: "int option"

text \<open>\<open>/SELECT\s+(.+?)\s+FROM/i\<close>\<close>

definition re_select :: "node list" where
  "re_select = lit ''SELECT'' @ [Atom WS Plus, Group [Atom AnyC PlusLazy], Atom WS Plus] @ lit ''FROM''"

text \<open>\<open>/WHERE\s+(.+?)(?:\s+GROUP|\s+ORDER|\s+LIMIT|$)/i\<close>\<close>

definition re_where :: "node list" where
  "re_where = lit ''WHERE'' @ [Atom WS Plus, Group [Atom AnyC PlusLazy],
     Alt [Atom WS Plus # lit ''GROUP'', Atom WS Plus # lit ''ORDER'',
          Atom WS Plus # lit ''LIMIT'', [EndAnchor]]]"

text \<open>\<open>/\s+AND\s+/i\<close>\<close>

definition re_and :: "node list" where
  "re_and = [Atom WS Plus] @ lit ''AND'' @ [Atom WS Plus]"

text \<open>\<open>/(\w+)\s*=\s*['"]?([^'"]+)['"]?/i\<close>\<close>

definition quotes :: "char list" where
  "quotes = [CHR 0x27, CHR 0x22]"

definition re_eq :: "node list" where
  "re_eq = [Group [Atom WordC Plus], Atom WS Star, Atom (Chr CHR ''='') Once, Atom WS Star,
     Atom (OneOf quotes) Opt, Group [Atom (NoneOf quotes) Plus], Atom (OneOf quotes) Opt]"

text \<open>\<open>/(\w+)\s+LIKE\s+['"]?%?([^'"]+)%?['"]?/i\<close>\<close>

definition re_like :: "node list" where
  "re_like = [Group [Atom WordC Plus], Atom WS Plus] @ lit ''LIKE'' @
     [Atom WS Plus, Atom (OneOf quotes) Opt, Atom (Chr CHR ''%'') Opt,
      Group [Atom (NoneOf quotes) Plus], Atom (Chr CHR ''%'') Opt, Atom (OneOf quotes) Opt]"

text \<open>\<open>/GROUP\s+BY\s+(\w+)/i\<close>\<close>

definition re_group :: "node list" where
  "re_group = lit ''GROUP'' @ [Atom WS Plus] @ lit ''BY'' @ [Atom WS Plus, Group [Atom WordC Plus]]"

text \<open>\<open>/LIMIT\s+(\d+)/i\<close>\<close>

definition re_limit :: "node list" where
  "re_limit = lit ''LIMIT'' @ [Atom WS Plus, Group [Atom DigitC Plus]]"

text \<open>
  The plan's predicates and the group counts are objects created by \<open>{}\<close>. Such an
  object is kept as the list of its own properties in the order they were first assigned,
  and it inherits the members of \<open>Object.prototype\<close>, whose names these are. The place
  JavaScript gives to keys that are canonical array indices is not modelled.
\<close>

definition objectPrototypeNames :: "string list" where
  "objectPrototypeNames =
     [''constructor'', ''__defineGetter__'', ''__defineSetter__'', ''hasOwnProperty'',
      ''__lookupGetter__'', ''__lookupSetter__'', ''isPrototypeOf'', ''propertyIsEnumerable'',
      ''toString'', ''valueOf'', ''__proto__'', ''toLocaleString'']"

text \<open>
  \<open>obj[k] = v\<close> for a value \<open>v\<close> that is a string or a number: it sets an own
  property, except that the inherited setter of \<open>__proto__\<close> ignores such a value and
  no property is made.
\<close>

definition assign :: "string \<Rightarrow> 'v \<Rightarrow> (string \<times> 'v) list \<Rightarrow> (string \<times> 'v) list" where
  "assign k v obj = (if k = ''__proto__'' then obj else AList.update k v obj)"

text \<open>The body of the loop over the conditions of the WHERE clause.\<close>

definition addCondition :: "(string \<times> string) list \<Rightarrow> string \<Rightarrow> (string \<times> string) list" where
  "addCondition w condition =
     (let w1 = (case search re_eq condition of
                  Some (f # v # rest) \<Rightarrow> assign (toLowerCase f) v w
                | _ \<Rightarrow> w)
      in case search re_like condition of
           Some (f # v # rest) \<Rightarrow> assign (toLowerCase f) v w1
         | _ \<Rightarrow> w1)"

definition parseSimpleSQL :: "string \<Rightarrow> QueryPlan" where
  "parseSimpleSQL query =
     (let normalizedQuery = trim query
      in \<lparr> plan_select =
             (case search re_select normalizedQuery of
                Some (m # rest) \<Rightarrow> map trim (split_on CHR '','' m [])
              | _ \<Rightarrow> [''*'']),
           plan_where =
             (case search re_where normalizedQuery of
                Some (m # rest) \<Rightarrow> foldl addCondition [] (split_re re_and m)
              | _ \<Rightarrow> []),
           plan_groupBy =
             (case search re_group normalizedQuery of
                Some (m # rest) \<Rightarrow> Some (toLowerCase m)
              | _ \<Rightarrow> None),
           plan_limit =
             (case search re_limit normalizedQuery of
                Some (m # rest) \<Rightarrow> parseInt m
              | _ \<Rightarrow> None) \<rparr>)"

section \<open>executeSQLQuery and executeAggregateQuery\<close>

text \<open>The age groups of the query route.\<close>

definition getAgeGroup :: "int \<Rightarrow> string" where
  "getAgeGroup a =
     (if a < 20 then ''0-19''
      else if a < 40 then ''20-39''
      else if a < 60 then ''40-59''
      else if a < 80 then ''60-79''
      else ''80+'')"

text \<open>The age groups of the data service, used for its statistics.\<close>

definition getAgeGroup_service :: "int \<Rightarrow> string" where
  "getAgeGroup_service a =
     (if a < 18 then ''0-17''
      else if a < 30 then ''18-29''
      else if a < 45 then ''30-44''
      else if a < 60 then ''45-59''
      else if a < 75 then ''60-74''
      else ''75+'')"

text \<open>\<open>a || b\<close> on optional strings.\<close>

definition orElse :: "string option \<Rightarrow> string option \<Rightarrow> string option" where
  "orElse a b = (if truthy a then a else b)"

definition whereAge :: "string option \<Rightarrow> EHRRecord list \<Rightarrow> EHRRecord list" where
  "whereAge a rs = (if truthy a then filter (\<lambda>r. Some (age r) = parseInt (the a)) rs else rs)"

definition whereAgeGroup :: "string option \<Rightarrow> EHRRecord list \<Rightarrow> EHRRecord list" where
  "whereAgeGroup g rs =
     (if truthy g then filter (\<lambda>r. getAgeGroup (age r) = the g) rs else rs)"

text \<open>
  The value of \<open>filteredRecords\<close> after the WHERE conditions of executeSQLQuery; the
  gender, region, condition and medication steps are those of searchRecords.
\<close>

definition sqlFiltered :: "QueryPlan \<Rightarrow> EHRRecord list \<Rightarrow> EHRRecord list" where
  "sqlFiltered parsed rs =
     (let w = map_of (plan_where parsed)
      in byMedication (w ''medication'')
           (byCondition (orElse (w ''condition'') (w ''symptom''))
             (byRegion (w ''region'')
               (byGender (w ''gender'')
                 (whereAgeGroup (orElse (w ''age_group'') (w ''agegroup''))
                   (whereAge (w ''age'') rs))))))"

text \<open>
  The string an inherited member converts to when 1 is added to it: the object
  \<open>Object.prototype\<close> for \<open>__proto__\<close>, and for the other names a built-in function,
  which for \<open>constructor\<close> is the function \<open>Object\<close>.
\<close>

definition inheritedText :: "string \<Rightarrow> string" where
  "inheritedText key =
     (if key = ''__proto__'' then ''[object Object]''
      else ''function '' @ (if key = ''constructor'' then ''Object'' else key)
           @ ''() { [native code] }'')"

text \<open>
  \<open>(x || 0) + 1\<close> for what \<open>aggregations[key]\<close> reads: an own property, or else the
  inherited member of that name, or else undefined. A number is incremented; a string
  that is not empty, and an inherited member, which is an object, get the character 1
  appended to their text.
\<close>

definition plusOne :: "string \<Rightarrow> jsval option \<Rightarrow> jsval" where
  "plusOne key x =
     (case x of
        Some (Num n) \<Rightarrow> Num (n + 1)
      | Some (Str s) \<Rightarrow> (if s = [] then Num 1 else Str (s @ ''1''))
      | None \<Rightarrow> (if key \<in> set objectPrototypeNames then Str (inheritedText key @ ''1'')
                 else Num 1))"

text \<open>\<open>aggregations[key] = (aggregations[key] || 0) + 1\<close> on an object of counts.\<close>

definition bump :: "string \<Rightarrow> (string \<times> jsval) list \<Rightarrow> (string \<times> jsval) list" where
  "bump key agg = assign key (plusOne key (map_of agg key)) agg"

text \<open>The loop \<open>for (const record of filteredRecords)\<close> that counts each record under its key.\<close>

definition tally :: "(EHRRecord \<Rightarrow> string) \<Rightarrow> EHRRecord list \<Rightarrow> (string \<times> jsval) list" where
  "tally key rs = foldl (\<lambda>agg r. bump (key r) agg) [] rs"

text \<open>The switch on \<open>parsed.groupBy\<close>.\<close>

definition sqlKey :: "string \<Rightarrow> EHRRecord \<Rightarrow> string" where
  "sqlKey g r =
     (if g = ''age_group'' \<or> g = ''agegroup'' \<or> g = ''age'' then getAgeGroup (age r)
      else if g = ''gender'' then gender r
      else if g = ''region'' then region r
      else ''unknown'')"

text \<open>\<open>parsed.limit || 100\<close>\<close>

definition sqlLimit :: "int option \<Rightarrow> int" where
  "sqlLimit l = (case l of None \<Rightarrow> 100 | Some n \<Rightarrow> if n = 0 then 100 else n)"

definition executePlan :: "int \<Rightarrow> int \<Rightarrow> EHRRecord list \<Rightarrow> QueryPlan \<Rightarrow> QueryResponse" where
  "executePlan startTime endTime allRecords parsed =
     (let filteredRecords = sqlFiltered parsed allRecords
      in if truthy (plan_groupBy parsed)
         then \<lparr> success = True,
                data = Some \<lparr> records = None,
                              aggregations =
                                Some (tally (sqlKey (the (plan_groupBy parsed))) filteredRecords),
                              stats = Some \<lparr> totalMatched = length filteredRecords,
                                             queryTime = endTime - startTime \<rparr> \<rparr>,
                error = None \<rparr>
         else \<lparr> success = True,
                data = Some \<lparr> records = Some (slice0 (sqlLimit (plan_limit parsed)) filteredRecords),
                              aggregations = None,
                              stats = Some \<lparr> totalMatched = length filteredRecords,
                                             queryTime = endTime - startTime \<rparr> \<rparr>,
                error = None \<rparr>)"

text \<open>
  executeSQLQuery on a request whose query is a string: the plan of the parser, then the
  executor. \<open>allRecords\<close> is what loadEHRData returns.
\<close>

definition executeSQLQuery :: "int \<Rightarrow> int \<Rightarrow> EHRRecord list \<Rightarrow> string \<Rightarrow> QueryResponse" where
  "executeSQLQuery startTime endTime allRecords query =
     executePlan startTime endTime allRecords (parseSimpleSQL query)"

record AggregateFilter =
  af_condition :: "string option"
  af_region :: "string option"
  af_gender :: "string option"

record AggregateRequest =
  groupBy :: string
  agg_filter :: "AggregateFilter option"

text \<open>\<open>filter?.x\<close>\<close>

definition viaFilter :: "AggregateFilter option \<Rightarrow> (AggregateFilter \<Rightarrow> string option) \<Rightarrow> string option" where
  "viaFilter f sel = (case f of None \<Rightarrow> None | Some x \<Rightarrow> sel x)"

definition aggFiltered :: "AggregateRequest \<Rightarrow> EHRRecord list \<Rightarrow> EHRRecord list" where
  "aggFiltered request rs =
     byGender (viaFilter (agg_filter request) af_gender)
       (byRegion (viaFilter (agg_filter request) af_region)
         (byCondition (viaFilter (agg_filter request) af_condition) rs))"

text \<open>The body of the aggregation loop, with its switch on \<open>groupBy\<close>.\<close>

definition aggStep :: "string \<Rightarrow> (string \<times> jsval) list \<Rightarrow> EHRRecord \<Rightarrow> (string \<times> jsval) list" where
  "aggStep g agg r =
     (if g = ''age'' then bump (getAgeGroup (age r)) agg
      else if g = ''gender'' then bump (gender r) agg
      else if g = ''region'' then bump (region r) agg
      else if g = ''condition'' then foldl (\<lambda>a cond. bump cond a) agg (symptoms r)
      else if g = ''medication'' then foldl (\<lambda>a med. bump med a) agg (medicationHistory r)
      else bump ''unknown'' agg)"

text \<open>
  \<open>Object.entries(aggregations).sort((a, b) => b[1] - a[1])\<close>: a stable sort, largest
  count first. Against a string the comparison gives NaN, which counts as equal; the
  order JavaScript then gives is left to its implementation, and the model keeps such
  entries where the stable sort puts them.
\<close>

fun sortWeight :: "jsval \<Rightarrow> int" where
  "sortWeight (Num n) = - int n"
| "sortWeight (Str s) = 0"

definition sortByCount :: "(string \<times> jsval) list \<Rightarrow> (string \<times> jsval) list" where
  "sortByCount agg = sort_key (\<lambda>e. sortWeight (snd e)) agg"

definition executeAggregateQuery ::
    "int \<Rightarrow> int \<Rightarrow> EHRRecord list \<Rightarrow> AggregateRequest \<Rightarrow> QueryResponse" where
  "executeAggregateQuery startTime endTime allRecords request =
     (let filteredRecords = aggFiltered request allRecords
      in \<lparr> success = True,
           data = Some \<lparr> records = None,
                         aggregations =
                           Some (sortByCount (foldl (aggStep (groupBy request)) [] filteredRecords)),
                         stats = Some \<lparr> totalMatched = length filteredRecords,
                                        queryTime = endTime - startTime \<rparr> \<rparr>,
           error = None \<rparr>)"

section \<open>The data service: parsing the file\<close>

text \<open>parseCSVRow: a comma outside double quotes ends a field, and the quotes are dropped.\<close>

fun csvLoop :: "string \<Rightarrow> string \<Rightarrow> bool \<Rightarrow> string list \<Rightarrow> string list" where
  "csvLoop [] current inQuotes result = result @ [trim current]"
| "csvLoop (ch # row) current inQuotes result =
     (if ch = CHR 0x22 then csvLoop row current (\<not> inQuotes) result
      else if ch = CHR '','' \<and> \<not> inQuotes then csvLoop row [] inQuotes (result @ [trim current])
      else csvLoop row (current @ [ch]) inQuotes result)"

definition parseCSVRow :: "string \<Rightarrow> string list" where
  "parseCSVRow row = csvLoop row [] False []"

text \<open>\<open>/\[([^\]]+)\]/g\<close>; the brackets have no other case, so the comparison of \<open>Chr\<close> is exact on them.\<close>

definition re_visit :: "node list" where
  "re_visit = [Atom (Chr CHR ''['') Once, Group [Atom (NoneOf [CHR '']'']) Plus],
     Atom (Chr CHR '']'') Once]"

text \<open>\<open>content.indexOf(":")\<close> as the text before the first colon and the text after it.\<close>

fun cutAtColon :: "string \<Rightarrow> string \<Rightarrow> (string \<times> string) option" where
  "cutAtColon [] before = None"
| "cutAtColon (c # s) before =
     (if c = CHR '':'' then Some (before, s) else cutAtColon s (before @ [c]))"

definition visitOf :: "string \<Rightarrow> PastVisit list" where
  "visitOf m =
     (case cutAtColon (butlast (tl m)) [] of
        None \<Rightarrow> []
      | Some (d, g) \<Rightarrow> [\<lparr> date = trim d, diagnosis = trim g \<rparr>])"

definition parsePastVisits :: "string \<Rightarrow> PastVisit list" where
  "parsePastVisits visitStr =
     (if visitStr = [] \<or> visitStr = ''None'' then []
      else concat (map visitOf (match_all re_visit visitStr)))"

definition parseListField :: "string \<Rightarrow> string list" where
  "parseListField v =
     (if v = [] \<or> v = ''None'' then []
      else filter (\<lambda>s. s \<noteq> []) (map trim (split_on CHR '','' v [])))"

text \<open>
  The body of the loop over the data lines: a line of fewer than ten fields gives no
  record, and an age that does not parse is 0.
\<close>

fun recordOf :: "string list \<Rightarrow> EHRRecord list" where
  "recordOf (f0 # f1 # f2 # f3 # f4 # f5 # f6 # f7 # f8 # f9 # rest) =
     [\<lparr> fullName = f0,
        age = (case parseInt f1 of None \<Rightarrow> 0 | Some n \<Rightarrow> n),
        gender = f2, region = f3, address = f4,
        symptoms = parseListField f5,
        medicationHistory = parseListField f6,
        pastVisits = parsePastVisits f7,
        phoneNumber = f8, insuranceId = f9 \<rparr>]"
| "recordOf other = []"

text \<open>The records of a file content: the first line that is not blank is the header.\<close>

definition parseContent :: "string \<Rightarrow> EHRRecord list" where
  "parseContent content =
     concat (map (\<lambda>line. recordOf (parseCSVRow line))
       (drop 1 (filter (\<lambda>line. trim line \<noteq> []) (split_on CHR 0x0A content []))))"

section \<open>The data service: the cache\<close>

text \<open>
  The module variables of the data service, with two counters of what it did to the
  outside: the calls of \<open>fs.readFile\<close> it has made and the errors it has written to
  the console. The statistics are of any type \<open>'s\<close>.
\<close>

record 's Module =
  cachedRecords :: "EHRRecord list option"
  cachedStats :: "'s option"
  cacheTimestamp :: "int option"
  fsReads :: nat
  consoleErrors :: "string list"

definition CACHE_TTL_MS :: int where
  "CACHE_TTL_MS = 5 * 60 * 1000"

text \<open>\<open>cacheTimestamp && Date.now() - cacheTimestamp < CACHE_TTL_MS\<close>\<close>

definition cacheAlive :: "int \<Rightarrow> 's Module \<Rightarrow> bool" where
  "cacheAlive now m =
     (case cacheTimestamp m of None \<Rightarrow> False | Some ts \<Rightarrow> ts \<noteq> 0 \<and> now - ts < CACHE_TTL_MS)"

text \<open>
  loadEHRData. \<open>disk n\<close> is the outcome of the \<open>n\<close>-th call of \<open>fs.readFile\<close>: an error
  message or the content of the file. \<open>now\<close> is the clock when the cache is checked,
  \<open>now'\<close> the clock when the new records are stored.
\<close>

definition loadEHRData ::
    "(nat \<Rightarrow> string + string) \<Rightarrow> int \<Rightarrow> int \<Rightarrow> 's Module \<Rightarrow> EHRRecord list \<times> 's Module" where
  "loadEHRData disk now now' m =
     (if cachedRecords m \<noteq> None \<and> cacheAlive now m then (the (cachedRecords m), m)
      else case disk (fsReads m) of
             Inl err \<Rightarrow>
               ([], m\<lparr> fsReads := fsReads m + 1, consoleErrors := consoleErrors m @ [err] \<rparr>)
           | Inr content \<Rightarrow>
               (parseContent content,
                m\<lparr> cachedRecords := Some (parseContent content),
                   cacheTimestamp := Some now',
                   cachedStats := None,
                   fsReads := fsReads m + 1 \<rparr>))"

text \<open>
  getEHRStatistics. The statistics are built from the loaded records and the clock by a
  loop that reads and writes no module variable; it is the parameter \<open>build\<close>. The clock
  is read at \<open>t1\<close> for the check, at \<open>t2\<close> and \<open>t3\<close> inside loadEHRData and at \<open>t4\<close> for
  the time stamp of the statistics.
\<close>

definition getEHRStatistics ::
    "(nat \<Rightarrow> string + string) \<Rightarrow> (int \<Rightarrow> EHRRecord list \<Rightarrow> 's) \<Rightarrow> int \<Rightarrow> int \<Rightarrow> int \<Rightarrow> int \<Rightarrow>
       's Module \<Rightarrow> 's \<times> 's Module" where
  "getEHRStatistics disk build t1 t2 t3 t4 m =
     (if cachedStats m \<noteq> None \<and> cacheAlive t1 m then (the (cachedStats m), m)
      else case loadEHRData disk t2 t3 m of
             (recs, m') \<Rightarrow> (build t4 recs, m'\<lparr> cachedStats := Some (build t4 recs) \<rparr>))"

text \<open>
  The states the module can be in, with the latest reading of the clock: it starts with
  nothing cached, and only loadEHRData and getEHRStatistics write its variables. Their
  calls are taken one after another, and the clock does not run backwards.
\<close>

definition startModule :: "'s Module" where
  "startModule = \<lparr> cachedRecords = None, cachedStats = None, cacheTimestamp = None,
     fsReads = 0, consoleErrors = [] \<rparr>"

inductive reachable ::
    "(nat \<Rightarrow> string + string) \<Rightarrow> (int \<Rightarrow> EHRRecord list \<Rightarrow> 's) \<Rightarrow> 's Module \<Rightarrow> int \<Rightarrow> bool"
  for disk :: "nat \<Rightarrow> string + string" and build :: "int \<Rightarrow> EHRRecord list \<Rightarrow> 's" where
  start: "reachable disk build startModule t"
| load: "reachable disk build m t \<Longrightarrow> t \<le> t1 \<Longrightarrow> t1 \<le> t2 \<Longrightarrow>
     reachable disk build (snd (loadEHRData disk t1 t2 m)) t2"
| stats: "reachable disk build m t \<Longrightarrow> t \<le> t1 \<Longrightarrow> t1 \<le> t2 \<Longrightarrow> t2 \<le> t3 \<Longrightarrow> t3 \<le> t4 \<Longrightarrow>
     reachable disk build (snd (getEHRStatistics disk build t1 t2 t3 t4 m)) t4"

text \<open>
  executeFilterQuery with the module state: the records it searches are those that
  loadEHRData returns. The clock is read at \<open>t0\<close> on entry, at \<open>t1\<close> and \<open>t2\<close> inside
  loadEHRData and at \<open>t3\<close> for the query time.
\<close>

definition runFilterQuery ::
    "(nat \<Rightarrow> string + string) \<Rightarrow> int \<Rightarrow> int \<Rightarrow> int \<Rightarrow> int \<Rightarrow> 's Module \<Rightarrow> FilterRequest \<Rightarrow>
       QueryResponse \<times> 's Module" where
  "runFilterQuery disk t0 t1 t2 t3 m request =
     (case loadEHRData disk t1 t2 m of
        (allRecords, m') \<Rightarrow> (executeFilterQuery t0 t3 allRecords request, m'))"

text \<open>What a response carries: its record slice, its group counts, its matched count.\<close>

definition respRecords :: "QueryResponse \<Rightarrow> EHRRecord list option" where
  "respRecords resp = (case data resp of None \<Rightarrow> None | Some d \<Rightarrow> records d)"

definition respAggregations :: "QueryResponse \<Rightarrow> (string \<times> jsval) list option" where
  "respAggregations resp = (case data resp of None \<Rightarrow> None | Some d \<Rightarrow> aggregations d)"

definition respTotalMatched :: "QueryResponse \<Rightarrow> nat option" where
  "respTotalMatched resp =
     (case data resp of None \<Rightarrow> None
      | Some d \<Rightarrow> (case stats d of None \<Rightarrow> None | Some st \<Rightarrow> Some (totalMatched st)))"

text \<open>The matched count of a response, 0 when it reports none.\<close>

definition matchedCount :: "QueryResponse \<Rightarrow> nat" where
  "matchedCount resp = (case respTotalMatched resp of None \<Rightarrow> 0 | Some n \<Rightarrow> n)"

section \<open>Sample data and comparison of searches\<close>

definition patient :: "int \<Rightarrow> string list \<Rightarrow> EHRRecord" where
  "patient a ss = \<lparr> fullName = ''Aiko Tanaka'', age = a, gender = ''Female'', region = ''Kanto'',
     address = ''1-2-3 Minato, Tokyo'', symptoms = ss, medicationHistory = [], pastVisits = [],
     phoneNumber = ''03-0000-0000'', insuranceId = ''INS-0001'' \<rparr>"

definition noFilters :: Filters where
  "noFilters = \<lparr> flt_ageMin = None, flt_ageMax = None, flt_condition = None, flt_medication = None,
     flt_region = None, flt_gender = None, flt_diagnosis = None \<rparr>"

text \<open>
  One search narrows another on the same records: what it matches before the limit is a
  subsequence of what the other matches, so no more numerous, and it returns no more
  records.
\<close>

definition narrows :: "SearchOptions \<Rightarrow> SearchOptions \<Rightarrow> EHRRecord list \<Rightarrow> bool" where
  "narrows tight loose rs =
     (subseq (searchFiltered tight rs) (searchFiltered loose rs)
      \<and> set (searchFiltered tight rs) \<subseteq> set (searchFiltered loose rs)
      \<and> length (searchFiltered tight rs) \<le> length (searchFiltered loose rs)
      \<and> length (searchRecords tight rs) \<le> length (searchRecords loose rs))"

text \<open>A key that is not the name of an inherited member.\<close>

definition ordinaryKey :: "string \<Rightarrow> bool" where
  "ordinaryKey k = (k \<notin> set objectPrototypeNames)"

text \<open>
  The sum of the group counts of a response; there is none when the response has no
  group counts or when one of them is not a number.
\<close>

fun isNum :: "jsval \<Rightarrow> bool" where
  "isNum (Num n) = True"
| "isNum (Str s) = False"

fun numOf :: "jsval \<Rightarrow> nat" where
  "numOf (Num n) = n"
| "numOf (Str s) = 0"

definition countSum :: "(string \<times> jsval) list \<Rightarrow> nat option" where
  "countSum agg =
     (if list_all (\<lambda>e. isNum (snd e)) agg then Some (sum_list (map (\<lambda>e. numOf (snd e)) agg))
      else None)"

definition groupCountSum :: "QueryResponse \<Rightarrow> nat option" where
  "groupCountSum resp =
     (case respAggregations resp of None \<Rightarrow> None | Some agg \<Rightarrow> countSum agg)"

text \<open>Group counts that are all numbers, and their sum.\<close>

definition allNum :: "(string \<times> jsval) list \<Rightarrow> bool" where
  "allNum agg = list_all (\<lambda>e. isNum (snd e)) agg"

definition numSum :: "(string \<times> jsval) list \<Rightarrow> nat" where
  "numSum agg = sum_list (map (\<lambda>e. numOf (snd e)) agg)"

text \<open>Three records: two men, one of them on a medication, and a woman.\<close>

definition cohort :: "EHRRecord list" where
  "cohort = [(patient 30 [''Diabetes'', ''Hypertension''])\<lparr>gender := ''Male'', medicationHistory := [''Metformin'']\<rparr>,
             (patient 41 [])\<lparr>gender := ''Male''\<rparr>,
             patient 52 [''Diabetes'']]"

section \<open>Sample queries and plans\<close>

definition likeQuery :: string where
  "likeQuery = ''WHERE condition LIKE '%abet%'' @ [CHR 0x27]"

definition eqQuery :: string where
  "eqQuery = ''WHERE condition = 'Diabetes'' @ [CHR 0x27]"

definition defaultPlan :: QueryPlan where
  "defaultPlan = \<lparr> plan_select = [''*''], plan_where = [], plan_groupBy = None, plan_limit = None \<rparr>"

definition femalePlan :: QueryPlan where
  "femalePlan = \<lparr> plan_select = [''*''], plan_where = [(''gender'', ''Female'')],
     plan_groupBy = None, plan_limit = None \<rparr>"

section \<open>Sample files and module states\<close>

definition failingDisk :: "nat \<Rightarrow> string + string" where
  "failingDisk n = Inl ''ENOENT: no such file or directory''"

definition sampleCsv :: string where
  "sampleCsv = ''Full Name,Age,Gender,Region,Address,Symptoms,Medication History,Past Visits,Phone Number,Insurance ID''
     @ [CHR 0x0A]
     @ ''Aiko Tanaka,34,Female,Kanto,\"1-2-3 Minato, Tokyo\",\"Diabetes, Hypertension\",None,\"[2024-10-06: Fever], [2024-08-16: Allergic Rhinitis]\",03-0000-0000,INS-0001''
     @ [CHR 0x0A]"

definition sampleRecord :: EHRRecord where
  "sampleRecord = \<lparr> fullName = ''Aiko Tanaka'', age = 34, gender = ''Female'', region = ''Kanto'',
     address = ''1-2-3 Minato, Tokyo'', symptoms = [''Diabetes'', ''Hypertension''],
     medicationHistory = [],
     pastVisits = [\<lparr> date = ''2024-10-06'', diagnosis = ''Fever'' \<rparr>,
                   \<lparr> date = ''2024-08-16'', diagnosis = ''Allergic Rhinitis'' \<rparr>],
     phoneNumber = ''03-0000-0000'', insuranceId = ''INS-0001'' \<rparr>"

definition sampleDisk :: "nat \<Rightarrow> string + string" where
  "sampleDisk n = Inr sampleCsv"

definition sampleBuild :: "int \<Rightarrow> EHRRecord list \<Rightarrow> int \<times> nat" where
  "sampleBuild t rs = (t, length rs)"

definition loadedModule :: "(int \<times> nat) Module" where
  "loadedModule = \<lparr> cachedRecords = Some [sampleRecord], cachedStats = None,
     cacheTimestamp = Some 1001, fsReads = 1, consoleErrors = [] \<rparr>"

definition warmModule :: "(int \<times> nat) Module" where
  "warmModule = \<lparr> cachedRecords = Some [sampleRecord], cachedStats = Some (2003, 1),
     cacheTimestamp = Some 1001, fsReads = 1, consoleErrors = [] \<rparr>"

section \<open>An invariant of the cache\<close>

text \<open>
  From the time \<open>t\<close> on the cache is not alive, whatever the clock shows later: it has
  no time stamp, or its time to live has passed at \<open>t\<close>.
\<close>

definition expiredFrom :: "int \<Rightarrow> 's Module \<Rightarrow> bool" where
  "expiredFrom t m =
     (case cacheTimestamp m of None \<Rightarrow> True | Some ts \<Rightarrow> ts = 0 \<or> CACHE_TTL_MS \<le> t - ts)"

text \<open>
  What holds of the module in every state it reaches: records are cached with a time
  stamp, and cached statistics were built from the cached records unless the cache has
  expired.
\<close>

definition statsInv :: "(int \<Rightarrow> EHRRecord list \<Rightarrow> 's) \<Rightarrow> 's Module \<Rightarrow> int \<Rightarrow> bool" where
  "statsInv build m t =
     ((cachedRecords m = None \<longrightarrow> cacheTimestamp m = None)
      \<and> (\<forall>s. cachedStats m = Some s \<longrightarrow>
             expiredFrom t m \<or> (\<exists>t' rs. cachedRecords m = Some rs \<and> s = build t' rs)))"

section \<open>Rules for evaluating the model on concrete inputs\<close>

lemmas rx_defs = re_select_def re_where_def re_and_def re_eq_def re_like_def re_group_def re_limit_def
  lit_def quotes_def isWord_def isSpace_def isDigit_def lower_char_def toLowerCase_def
  char_of_def bit_Suc_0_iff

lemmas parse_defs = parseSimpleSQL_def trim_def parseInt_def digitsValue_def addCondition_def
  assign_def split_re_def

lemmas filter_defs = byCondition_def byMedication_def byRegion_def byAgeMin_def byAgeMax_def
  byGender_def byDiagnosis_def whereAge_def whereAgeGroup_def orElse_def

lemmas count_defs = bump_def assign_def plusOne_def objectPrototypeNames_def inheritedText_def

section \<open>The sentinel "all"\<close>

lemma unlessAll_all: "unlessAll (Some ''all'') = None"
  by (simp add: unlessAll_def)

lemma unlessAll_None: "unlessAll None = None"
  by (simp add: unlessAll_def)

text \<open>
  C9. In a filter request, each of the fields condition, medication, region, gender and
  diagnosis set to the string "all" gives the same response as the request without that
  field, whatever the other fields, the limit, the records and the clock are.
\<close>

theorem all_sentinel_is_absent:
  "executeFilterQuery t0 t1 rs (req\<lparr>filters := (filters req)\<lparr>flt_condition := Some ''all''\<rparr>\<rparr>)
     = executeFilterQuery t0 t1 rs (req\<lparr>filters := (filters req)\<lparr>flt_condition := None\<rparr>\<rparr>)
   \<and> executeFilterQuery t0 t1 rs (req\<lparr>filters := (filters req)\<lparr>flt_medication := Some ''all''\<rparr>\<rparr>)
     = executeFilterQuery t0 t1 rs (req\<lparr>filters := (filters req)\<lparr>flt_medication := None\<rparr>\<rparr>)
   \<and> executeFilterQuery t0 t1 rs (req\<lparr>filters := (filters req)\<lparr>flt_region := Some ''all''\<rparr>\<rparr>)
     = executeFilterQuery t0 t1 rs (req\<lparr>filters := (filters req)\<lparr>flt_region := None\<rparr>\<rparr>)
   \<and> executeFilterQuery t0 t1 rs (req\<lparr>filters := (filters req)\<lparr>flt_gender := Some ''all''\<rparr>\<rparr>)
     = executeFilterQuery t0 t1 rs (req\<lparr>filters := (filters req)\<lparr>flt_gender := None\<rparr>\<rparr>)
   \<and> executeFilterQuery t0 t1 rs (req\<lparr>filters := (filters req)\<lparr>flt_diagnosis := Some ''all''\<rparr>\<rparr>)
     = executeFilterQuery t0 t1 rs (req\<lparr>filters := (filters req)\<lparr>flt_diagnosis := None\<rparr>\<rparr>)"
  by (simp add: executeFilterQuery_def filterOptions_def unlessAll_all unlessAll_None)

section \<open>Monotonicity of the search\<close>

lemma byCondition_mono: "subseq xs ys \<Longrightarrow> subseq (byCondition c xs) (byCondition c ys)"
  by (simp add: byCondition_def)
lemma byMedication_mono: "subseq xs ys \<Longrightarrow> subseq (byMedication c xs) (byMedication c ys)"
  by (simp add: byMedication_def)
lemma byRegion_mono: "subseq xs ys \<Longrightarrow> subseq (byRegion c xs) (byRegion c ys)"
  by (simp add: byRegion_def)
lemma byAgeMin_mono: "subseq xs ys \<Longrightarrow> subseq (byAgeMin c xs) (byAgeMin c ys)"
  by (simp add: byAgeMin_def split: option.split)
lemma byAgeMax_mono: "subseq xs ys \<Longrightarrow> subseq (byAgeMax c xs) (byAgeMax c ys)"
  by (simp add: byAgeMax_def split: option.split)
lemma byGender_mono: "subseq xs ys \<Longrightarrow> subseq (byGender c xs) (byGender c ys)"
  by (simp add: byGender_def)
lemma byDiagnosis_mono: "subseq xs ys \<Longrightarrow> subseq (byDiagnosis c xs) (byDiagnosis c ys)"
  by (simp add: byDiagnosis_def)

lemmas by_mono = byCondition_mono byMedication_mono byRegion_mono byAgeMin_mono byAgeMax_mono
  byGender_mono byDiagnosis_mono

lemma byCondition_sub: "subseq (byCondition c xs) (byCondition None xs)"
  by (simp add: byCondition_def)
lemma byMedication_sub: "subseq (byMedication c xs) (byMedication None xs)"
  by (simp add: byMedication_def)
lemma byRegion_sub: "subseq (byRegion c xs) (byRegion None xs)"
  by (simp add: byRegion_def)
lemma byAgeMin_sub: "subseq (byAgeMin c xs) (byAgeMin None xs)"
  by (simp add: byAgeMin_def split: option.split)
lemma byAgeMax_sub: "subseq (byAgeMax c xs) (byAgeMax None xs)"
  by (simp add: byAgeMax_def split: option.split)
lemma byGender_sub: "subseq (byGender c xs) (byGender None xs)"
  by (simp add: byGender_def)
lemma byDiagnosis_sub: "subseq (byDiagnosis c xs) (byDiagnosis None xs)"
  by (simp add: byDiagnosis_def)

lemmas by_sub = byCondition_sub byMedication_sub byRegion_sub byAgeMin_sub byAgeMax_sub
  byGender_sub byDiagnosis_sub

lemma length_slice0: "length (slice0 e xs) = (if e < 0 then length xs - nat (- e) else min (nat e) (length xs))"
  by (auto simp: slice0_def)

lemma slice0_length_mono: "length xs \<le> length ys \<Longrightarrow> length (slice0 e xs) \<le> length (slice0 e ys)"
  by (auto simp: length_slice0)

lemma narrowsI:
  assumes "subseq (searchFiltered tight rs) (searchFiltered loose rs)"
    and "opt_limit tight = opt_limit loose"
  shows "narrows tight loose rs"
proof -
  have len: "length (searchFiltered tight rs) \<le> length (searchFiltered loose rs)"
    using assms(1) by (rule list_emb_length)
  have sub: "set (searchFiltered tight rs) \<subseteq> set (searchFiltered loose rs)"
    using assms(1) by (auto elim: list_emb_set)
  from len have "length (searchRecords tight rs) \<le> length (searchRecords loose rs)"
    by (simp add: searchRecords_def assms(2) slice0_length_mono)
  with len sub assms(1) show ?thesis by (simp add: narrows_def)
qed

lemma narrows_refl: "narrows a a rs"
  by (rule narrowsI) simp_all

lemma narrows_added:
  "narrows (opts\<lparr>opt_condition := c\<rparr>) (opts\<lparr>opt_condition := None\<rparr>) rs
   \<and> narrows (opts\<lparr>opt_medication := c\<rparr>) (opts\<lparr>opt_medication := None\<rparr>) rs
   \<and> narrows (opts\<lparr>opt_region := c\<rparr>) (opts\<lparr>opt_region := None\<rparr>) rs
   \<and> narrows (opts\<lparr>opt_ageMin := a\<rparr>) (opts\<lparr>opt_ageMin := None\<rparr>) rs
   \<and> narrows (opts\<lparr>opt_ageMax := a\<rparr>) (opts\<lparr>opt_ageMax := None\<rparr>) rs
   \<and> narrows (opts\<lparr>opt_gender := c\<rparr>) (opts\<lparr>opt_gender := None\<rparr>) rs
   \<and> narrows (opts\<lparr>opt_diagnosis := c\<rparr>) (opts\<lparr>opt_diagnosis := None\<rparr>) rs"
proof (intro conjI)
  show "narrows (opts\<lparr>opt_condition := c\<rparr>) (opts\<lparr>opt_condition := None\<rparr>) rs"
    by (rule narrowsI) (simp_all add: searchFiltered_def by_mono by_sub)
  show "narrows (opts\<lparr>opt_medication := c\<rparr>) (opts\<lparr>opt_medication := None\<rparr>) rs"
    by (rule narrowsI) (simp_all add: searchFiltered_def by_mono by_sub)
  show "narrows (opts\<lparr>opt_region := c\<rparr>) (opts\<lparr>opt_region := None\<rparr>) rs"
    by (rule narrowsI) (simp_all add: searchFiltered_def by_mono by_sub)
  show "narrows (opts\<lparr>opt_ageMin := a\<rparr>) (opts\<lparr>opt_ageMin := None\<rparr>) rs"
    by (rule narrowsI) (simp_all add: searchFiltered_def by_mono by_sub)
  show "narrows (opts\<lparr>opt_ageMax := a\<rparr>) (opts\<lparr>opt_ageMax := None\<rparr>) rs"
    by (rule narrowsI) (simp_all add: searchFiltered_def by_mono by_sub)
  show "narrows (opts\<lparr>opt_gender := c\<rparr>) (opts\<lparr>opt_gender := None\<rparr>) rs"
    by (rule narrowsI) (simp_all add: searchFiltered_def by_mono by_sub)
  show "narrows (opts\<lparr>opt_diagnosis := c\<rparr>) (opts\<lparr>opt_diagnosis := None\<rparr>) rs"
    by (rule narrowsI) (simp_all add: searchFiltered_def by_mono by_sub)
qed

lemma matchedCount_filter:
  "matchedCount (executeFilterQuery t0 t1 rs req) = length (searchRecords (filterOptions req) rs)"
  by (simp add: matchedCount_def respTotalMatched_def executeFilterQuery_def Let_def)

text \<open>
  C7. In searchRecords, a request with one more predicate (condition, medication, region,
  minimum age, maximum age, gender or diagnosis) matches a subsequence of what the same
  request without that predicate matches: its matched set is a subset, its matched count
  is no larger, and the slice it returns is no longer. Likewise the matched count in the
  response to a filter request does not grow when one of these fields is added to its
  filters. This holds for every value of the added predicate, every setting of the other
  fields and of the limit, and every list of records.
\<close>

theorem one_more_predicate_narrows:
  "narrows (opts\<lparr>opt_condition := c\<rparr>) (opts\<lparr>opt_condition := None\<rparr>) rs
   \<and> narrows (opts\<lparr>opt_medication := c\<rparr>) (opts\<lparr>opt_medication := None\<rparr>) rs
   \<and> narrows (opts\<lparr>opt_region := c\<rparr>) (opts\<lparr>opt_region := None\<rparr>) rs
   \<and> narrows (opts\<lparr>opt_ageMin := a\<rparr>) (opts\<lparr>opt_ageMin := None\<rparr>) rs
   \<and> narrows (opts\<lparr>opt_ageMax := a\<rparr>) (opts\<lparr>opt_ageMax := None\<rparr>) rs
   \<and> narrows (opts\<lparr>opt_gender := c\<rparr>) (opts\<lparr>opt_gender := None\<rparr>) rs
   \<and> narrows (opts\<lparr>opt_diagnosis := c\<rparr>) (opts\<lparr>opt_diagnosis := None\<rparr>) rs
   \<and> matchedCount (executeFilterQuery t0 t1 rs (req\<lparr>filters := (filters req)\<lparr>flt_condition := c\<rparr>\<rparr>))
     \<le> matchedCount (executeFilterQuery t0 t1 rs (req\<lparr>filters := (filters req)\<lparr>flt_condition := None\<rparr>\<rparr>))
   \<and> matchedCount (executeFilterQuery t0 t1 rs (req\<lparr>filters := (filters req)\<lparr>flt_medication := c\<rparr>\<rparr>))
     \<le> matchedCount (executeFilterQuery t0 t1 rs (req\<lparr>filters := (filters req)\<lparr>flt_medication := None\<rparr>\<rparr>))
   \<and> matchedCount (executeFilterQuery t0 t1 rs (req\<lparr>filters := (filters req)\<lparr>flt_region := c\<rparr>\<rparr>))
     \<le> matchedCount (executeFilterQuery t0 t1 rs (req\<lparr>filters := (filters req)\<lparr>flt_region := None\<rparr>\<rparr>))
   \<and> matchedCount (executeFilterQuery t0 t1 rs (req\<lparr>filters := (filters req)\<lparr>flt_ageMin := a\<rparr>\<rparr>))
     \<le> matchedCount (executeFilterQuery t0 t1 rs (req\<lparr>filters := (filters req)\<lparr>flt_ageMin := None\<rparr>\<rparr>))
   \<and> matchedCount (executeFilterQuery t0 t1 rs (req\<lparr>filters := (filters req)\<lparr>flt_ageMax := a\<rparr>\<rparr>))
     \<le> matchedCount (executeFilterQuery t0 t1 rs (req\<lparr>filters := (filters req)\<lparr>flt_ageMax := None\<rparr>\<rparr>))
   \<and> matchedCount (executeFilterQuery t0 t1 rs (req\<lparr>filters := (filters req)\<lparr>flt_gender := c\<rparr>\<rparr>))
     \<le> matchedCount (executeFilterQuery t0 t1 rs (req\<lparr>filters := (filters req)\<lparr>flt_gender := None\<rparr>\<rparr>))
   \<and> matchedCount (executeFilterQuery t0 t1 rs (req\<lparr>filters := (filters req)\<lparr>flt_diagnosis := c\<rparr>\<rparr>))
     \<le> matchedCount (executeFilterQuery t0 t1 rs (req\<lparr>filters := (filters req)\<lparr>flt_diagnosis := None\<rparr>\<rparr>))"
proof -
  let ?o = "filterOptions req"
  have c1: "filterOptions (req\<lparr>filters := (filters req)\<lparr>flt_condition := x\<rparr>\<rparr>) = ?o\<lparr>opt_condition := unlessAll x\<rparr>" for x
    by (simp add: filterOptions_def)
  have c2: "filterOptions (req\<lparr>filters := (filters req)\<lparr>flt_medication := x\<rparr>\<rparr>) = ?o\<lparr>opt_medication := unlessAll x\<rparr>" for x
    by (simp add: filterOptions_def)
  have c3: "filterOptions (req\<lparr>filters := (filters req)\<lparr>flt_region := x\<rparr>\<rparr>) = ?o\<lparr>opt_region := unlessAll x\<rparr>" for x
    by (simp add: filterOptions_def)
  have c4: "filterOptions (req\<lparr>filters := (filters req)\<lparr>flt_ageMin := y\<rparr>\<rparr>) = ?o\<lparr>opt_ageMin := y\<rparr>" for y
    by (simp add: filterOptions_def)
  have c5: "filterOptions (req\<lparr>filters := (filters req)\<lparr>flt_ageMax := y\<rparr>\<rparr>) = ?o\<lparr>opt_ageMax := y\<rparr>" for y
    by (simp add: filterOptions_def)
  have c6: "filterOptions (req\<lparr>filters := (filters req)\<lparr>flt_gender := x\<rparr>\<rparr>) = ?o\<lparr>opt_gender := unlessAll x\<rparr>" for x
    by (simp add: filterOptions_def)
  have c7: "filterOptions (req\<lparr>filters := (filters req)\<lparr>flt_diagnosis := x\<rparr>\<rparr>) = ?o\<lparr>opt_diagnosis := unlessAll x\<rparr>" for x
    by (simp add: filterOptions_def)
  note n = narrows_added [where opts = ?o and c = "unlessAll c" and rs = rs and a = a]
  have request: "matchedCount (executeFilterQuery t0 t1 rs (req\<lparr>filters := (filters req)\<lparr>flt_condition := c\<rparr>\<rparr>))
     \<le> matchedCount (executeFilterQuery t0 t1 rs (req\<lparr>filters := (filters req)\<lparr>flt_condition := None\<rparr>\<rparr>))
   \<and> matchedCount (executeFilterQuery t0 t1 rs (req\<lparr>filters := (filters req)\<lparr>flt_medication := c\<rparr>\<rparr>))
     \<le> matchedCount (executeFilterQuery t0 t1 rs (req\<lparr>filters := (filters req)\<lparr>flt_medication := None\<rparr>\<rparr>))
   \<and> matchedCount (executeFilterQuery t0 t1 rs (req\<lparr>filters := (filters req)\<lparr>flt_region := c\<rparr>\<rparr>))
     \<le> matchedCount (executeFilterQuery t0 t1 rs (req\<lparr>filters := (filters req)\<lparr>flt_region := None\<rparr>\<rparr>))
   \<and> matchedCount (executeFilterQuery t0 t1 rs (req\<lparr>filters := (filters req)\<lparr>flt_ageMin := a\<rparr>\<rparr>))
     \<le> matchedCount (executeFilterQuery t0 t1 rs (req\<lparr>filters := (filters req)\<lparr>flt_ageMin := None\<rparr>\<rparr>))
   \<and> matchedCount (executeFilterQuery t0 t1 rs (req\<lparr>filters := (filters req)\<lparr>flt_ageMax := a\<rparr>\<rparr>))
     \<le> matchedCount (executeFilterQuery t0 t1 rs (req\<lparr>filters := (filters req)\<lparr>flt_ageMax := None\<rparr>\<rparr>))
   \<and> matchedCount (executeFilterQuery t0 t1 rs (req\<lparr>filters := (filters req)\<lparr>flt_gender := c\<rparr>\<rparr>))
     \<le> matchedCount (executeFilterQuery t0 t1 rs (req\<lparr>filters := (filters req)\<lparr>flt_gender := None\<rparr>\<rparr>))
   \<and> matchedCount (executeFilterQuery t0 t1 rs (req\<lparr>filters := (filters req)\<lparr>flt_diagnosis := c\<rparr>\<rparr>))
     \<le> matchedCount (executeFilterQuery t0 t1 rs (req\<lparr>filters := (filters req)\<lparr>flt_diagnosis := None\<rparr>\<rparr>))"
    using n by (simp add: matchedCount_filter c1 c2 c3 c4 c5 c6 c7 unlessAll_None narrows_def)
  from narrows_added [where opts = opts and c = c and rs = rs and a = a] request
  show ?thesis by simp
qed

section \<open>Limits and matched counts\<close>

text \<open>
  C1 asks that totalMatched be the number of records that satisfy the predicates before
  the limit, and that the slice have the length min(totalMatched, limit). On a filter
  request the count reported as totalMatched is instead the length of the slice that
  searchRecords returned: with two records, no predicate and limit 1, both records match,
  one is returned and totalMatched is 1.
\<close>

theorem filter_totalMatched_is_slice_length:
  "respTotalMatched (executeFilterQuery 0 0 [patient 30 [], patient 31 []]
       \<lparr> filters = noFilters, req_limit = Some 1 \<rparr>) = Some 1
   \<and> respRecords (executeFilterQuery 0 0 [patient 30 [], patient 31 []]
       \<lparr> filters = noFilters, req_limit = Some 1 \<rparr>) = Some [patient 30 []]
   \<and> searchFiltered (filterOptions \<lparr> filters = noFilters, req_limit = Some 1 \<rparr>)
       [patient 30 [], patient 31 []] = [patient 30 [], patient 31 []]"
  by (simp add: respTotalMatched_def respRecords_def executeFilterQuery_def searchRecords_def
      searchFiltered_def filterOptions_def noFilters_def unlessAll_def slice0_def searchLimit_def
      byCondition_def byMedication_def byRegion_def byAgeMin_def byAgeMax_def byGender_def
      byDiagnosis_def)

lemma filter_response:
  "respRecords (executeFilterQuery t0 t1 rs req) = Some (searchRecords (filterOptions req) rs)
   \<and> respTotalMatched (executeFilterQuery t0 t1 rs req) = Some (length (searchRecords (filterOptions req) rs))"
  by (simp add: respTotalMatched_def respRecords_def executeFilterQuery_def Let_def)

lemma sql_response:
  "\<not> truthy (plan_groupBy p) \<Longrightarrow>
   respRecords (executePlan t0 t1 rs p) = Some (slice0 (sqlLimit (plan_limit p)) (sqlFiltered p rs))
   \<and> respTotalMatched (executePlan t0 t1 rs p) = Some (length (sqlFiltered p rs))"
  by (simp add: respTotalMatched_def respRecords_def executePlan_def Let_def)

lemma limit0_plan:
  "parseSimpleSQL ''SELECT * FROM ehr_records LIMIT 0'' =
    \<lparr> plan_select = [''*''], plan_where = [], plan_groupBy = None, plan_limit = Some 0 \<rparr>"
  by (simp add: parse_defs rx_defs)

text \<open>
  C10. A filter request with limit 0 returns the first 50 of the matching records, and a
  textual query whose plan has the limit 0 and no group-by returns the first 100 of the
  matching records.
\<close>

theorem zero_limit_is_not_honoured:
  "respRecords (executeFilterQuery t0 t1 rs (req\<lparr>req_limit := Some 0\<rparr>))
     = Some (take 50 (searchFiltered (filterOptions req) rs))
   \<and> (plan_limit (parseSimpleSQL q) = Some 0 \<and> plan_groupBy (parseSimpleSQL q) = None
        \<longrightarrow> respRecords (executeSQLQuery t0 t1 rs q)
              = Some (take 100 (sqlFiltered (parseSimpleSQL q) rs)))"
  by (simp add: filter_response sql_response executeSQLQuery_def searchRecords_def slice0_def
      searchLimit_def sqlLimit_def filterOptions_def searchFiltered_def)

theorem zero_limit_is_not_honoured_witness:
  "plan_limit (parseSimpleSQL ''SELECT * FROM ehr_records LIMIT 0'') = Some 0
   \<and> plan_groupBy (parseSimpleSQL ''SELECT * FROM ehr_records LIMIT 0'') = None
   \<and> respRecords (executeSQLQuery 0 0 (replicate 101 (patient 30 [])) ''SELECT * FROM ehr_records LIMIT 0'')
       = Some (replicate 100 (patient 30 []))
   \<and> respRecords (executeFilterQuery 0 0 (replicate 51 (patient 30 []))
        \<lparr> filters = noFilters, req_limit = Some 0 \<rparr>) = Some (replicate 50 (patient 30 []))"
proof -
  let ?q = "''SELECT * FROM ehr_records LIMIT 0''"
  have p: "parseSimpleSQL ?q = \<lparr> plan_select = [''*''], plan_where = [], plan_groupBy = None, plan_limit = Some 0 \<rparr>"
    by (rule limit0_plan)
  have f: "sqlFiltered \<lparr> plan_select = [''*''], plan_where = [], plan_groupBy = None, plan_limit = Some 0 \<rparr> rs = rs" for rs
    by (simp add: sqlFiltered_def byCondition_def byMedication_def byRegion_def byGender_def
        whereAge_def whereAgeGroup_def orElse_def)
  have g: "searchFiltered (filterOptions \<lparr> filters = noFilters, req_limit = Some 0 \<rparr>) rs = rs" for rs
    by (simp add: searchFiltered_def filterOptions_def noFilters_def unlessAll_def
      byCondition_def byMedication_def byRegion_def byAgeMin_def byAgeMax_def byGender_def
      byDiagnosis_def)
  have t1: "take 100 (replicate 101 x) = replicate 100 x" for x :: EHRRecord by simp
  have t2: "take 50 (replicate 51 x) = replicate 50 x" for x :: EHRRecord by simp
  show ?thesis
    using zero_limit_is_not_honoured [where ?t0.0 = 0 and ?t1.0 = 0
        and rs = "replicate 51 (patient 30 [])"
        and req = "\<lparr> filters = noFilters, req_limit = Some 0 \<rparr>" and q = ?q]
      zero_limit_is_not_honoured [where ?t0.0 = 0 and ?t1.0 = 0
        and rs = "replicate 101 (patient 30 [])"
        and req = "\<lparr> filters = noFilters, req_limit = Some 0 \<rparr>" and q = ?q]
    by (simp add: p f g t1 t2)
qed

section \<open>Group counts\<close>

lemma ordinary_not_proto: "ordinaryKey k \<Longrightarrow> k \<noteq> ''__proto__''"
  by (auto simp: ordinaryKey_def objectPrototypeNames_def)

lemma bump_ordinary:
  "ordinaryKey k \<Longrightarrow> bump k agg = AList.update k (plusOne k (map_of agg k)) agg"
  by (simp add: bump_def assign_def ordinary_not_proto)

lemma plusOne_ordinary:
  "ordinaryKey k \<Longrightarrow> plusOne k None = Num 1"
  by (simp add: plusOne_def ordinaryKey_def)

lemma plusOne_Num: "plusOne k (Some (Num n)) = Num (n + 1)"
  by (simp add: plusOne_def)

lemma update_plusOne:
  "ordinaryKey k \<Longrightarrow> allNum agg \<Longrightarrow>
   allNum (AList.update k (plusOne k (map_of agg k)) agg)
   \<and> numSum (AList.update k (plusOne k (map_of agg k)) agg) = numSum agg + 1"
proof (induction agg)
  case Nil
  then show ?case by (simp add: allNum_def numSum_def plusOne_ordinary)
next
  case (Cons e agg)
  obtain j v where e: "e = (j, v)" by (cases e)
  from Cons.prems(2) obtain n where v: "v = Num n"
    by (cases v) (simp_all add: allNum_def e)
  from Cons.prems(2) have rest: "allNum agg" by (simp add: allNum_def)
  show ?case
  proof (cases "j = k")
    case True
    with rest show ?thesis by (simp add: e v plusOne_Num allNum_def numSum_def)
  next
    case False
    with Cons.IH [OF Cons.prems(1) rest] show ?thesis
      by (simp add: e v allNum_def numSum_def)
  qed
qed

lemma allNum_bump: "ordinaryKey k \<Longrightarrow> allNum agg \<Longrightarrow> allNum (bump k agg)"
  by (simp add: bump_ordinary update_plusOne)

lemma numSum_bump: "ordinaryKey k \<Longrightarrow> allNum agg \<Longrightarrow> numSum (bump k agg) = numSum agg + 1"
  by (simp add: bump_ordinary update_plusOne)

lemma map_of_bump:
  "ordinaryKey k \<Longrightarrow>
   map_of (bump k agg) j = (if j = k then Some (plusOne k (map_of agg k)) else map_of agg j)"
  by (simp add: bump_ordinary update_conv')

lemma distinct_bump: "distinct (map fst agg) \<Longrightarrow> distinct (map fst (bump k agg))"
  by (simp add: bump_def assign_def distinct_update)

lemma bump_all_ordinary:
  "list_all ordinaryKey ks \<Longrightarrow> allNum acc \<Longrightarrow>
   allNum (foldl (\<lambda>a k. bump k a) acc ks)
   \<and> numSum (foldl (\<lambda>a k. bump k a) acc ks) = numSum acc + length ks"
  by (induction ks arbitrary: acc) (simp_all add: allNum_bump numSum_bump)

lemma tally_gen:
  "list_all (\<lambda>r. ordinaryKey (key r)) rs \<Longrightarrow> allNum acc \<Longrightarrow>
   allNum (foldl (\<lambda>agg r. bump (key r) agg) acc rs)
   \<and> numSum (foldl (\<lambda>agg r. bump (key r) agg) acc rs) = numSum acc + length rs"
  by (induction rs arbitrary: acc) (simp_all add: allNum_bump numSum_bump)

lemma map_of_allNum: "allNum agg \<Longrightarrow> map_of agg k = Some v \<Longrightarrow> v = Num (numOf v)"
  by (induction agg) (auto simp: allNum_def split: if_splits elim: isNum.elims)

lemma map_of_tally_gen:
  "list_all (\<lambda>r. ordinaryKey (key r)) rs \<Longrightarrow> allNum acc \<Longrightarrow>
   map_of (foldl (\<lambda>agg r. bump (key r) agg) acc rs) k =
     (case map_of acc k of
        None \<Rightarrow> (if length (filter (\<lambda>r. key r = k) rs) = 0 then None
                  else Some (Num (length (filter (\<lambda>r. key r = k) rs))))
      | Some v \<Rightarrow> Some (Num (numOf v + length (filter (\<lambda>r. key r = k) rs))))"
proof (induction rs arbitrary: acc)
  case Nil
  then show ?case by (auto split: option.splits dest: map_of_allNum)
next
  case (Cons r rs)
  from Cons.prems have ok: "ordinaryKey (key r)" and rest: "list_all (\<lambda>r. ordinaryKey (key r)) rs"
    by simp_all
  have an: "allNum (bump (key r) acc)" using ok Cons.prems(2) by (rule allNum_bump)
  have step: "map_of (bump (key r) acc) k
      = (if k = key r then Some (plusOne (key r) (map_of acc (key r))) else map_of acc k)"
    using ok by (rule map_of_bump)
  show ?case
  proof (cases "map_of acc k")
    case None
    then show ?thesis
      using Cons.IH [OF rest an] step ok by (auto simp: plusOne_ordinary)
  next
    case (Some v)
    with Cons.prems(2) have "v = Num (numOf v)" by (rule map_of_allNum)
    then obtain n where v: "v = Num n" by auto
    show ?thesis
      using Cons.IH [OF rest an] step Some by (auto simp: v plusOne_Num)
  qed
qed

lemma map_of_tally:
  "list_all (\<lambda>r. ordinaryKey (key r)) rs \<Longrightarrow>
   map_of (tally key rs) k =
     (if length (filter (\<lambda>r. key r = k) rs) = 0 then None
      else Some (Num (length (filter (\<lambda>r. key r = k) rs))))"
  by (simp add: tally_def map_of_tally_gen allNum_def)

lemma distinct_tally_gen:
  "distinct (map fst acc) \<Longrightarrow> distinct (map fst (foldl (\<lambda>agg r. bump (key r) agg) acc rs))"
  by (induction rs arbitrary: acc) (simp_all add: distinct_bump)

lemma distinct_tally: "distinct (map fst (tally key rs))"
  by (simp add: tally_def distinct_tally_gen)

lemma getAgeGroup_ordinary: "ordinaryKey (getAgeGroup a)"
  by (simp add: getAgeGroup_def ordinaryKey_def objectPrototypeNames_def)

lemma ageGroups_ordinary: "list_all (\<lambda>r. ordinaryKey (getAgeGroup (age r))) rs"
  by (simp add: list_all_iff getAgeGroup_ordinary)

lemma insort_key_allNum:
  "allNum (insort_key f x xs) = (isNum (snd x) \<and> allNum xs)"
  by (induction xs) (auto simp: allNum_def)

lemma insort_key_numSum: "numSum (insort_key f x xs) = numOf (snd x) + numSum xs"
  by (induction xs) (simp_all add: numSum_def)

lemma sortByCount_allNum: "allNum (sortByCount agg) = allNum agg"
  by (induction agg) (simp_all add: sortByCount_def insort_key_allNum, simp_all add: allNum_def)

lemma sortByCount_numSum: "numSum (sortByCount agg) = numSum agg"
  by (induction agg) (simp_all add: sortByCount_def insort_key_numSum, simp_all add: numSum_def)

lemma countSum_sortByCount: "countSum (sortByCount agg) = countSum agg"
  using sortByCount_allNum [of agg] sortByCount_numSum [of agg]
  by (simp add: countSum_def allNum_def numSum_def)

lemma countSum_allNum: "allNum agg \<Longrightarrow> countSum agg = Some (numSum agg)"
  by (simp add: countSum_def allNum_def numSum_def)

lemma aggStep_single:
  assumes "g \<noteq> ''condition''" and "g \<noteq> ''medication''"
    and "list_all (\<lambda>r. ordinaryKey (if g = ''age'' then getAgeGroup (age r)
            else if g = ''gender'' then gender r
            else if g = ''region'' then region r else ''unknown'')) rs"
    and "allNum acc"
  shows "allNum (foldl (aggStep g) acc rs) \<and> numSum (foldl (aggStep g) acc rs) = numSum acc + length rs"
  using assms(3,4)
proof (induction rs arbitrary: acc)
  case Nil
  then show ?case by simp
next
  case (Cons r rs)
  let ?k = "if g = ''age'' then getAgeGroup (age r)
            else if g = ''gender'' then gender r
            else if g = ''region'' then region r else ''unknown''"
  from Cons.prems have k: "ordinaryKey ?k" by simp
  have s: "aggStep g acc r = bump ?k acc" using assms(1,2) by (simp add: aggStep_def)
  have a: "allNum (aggStep g acc r)" unfolding s using k Cons.prems(2) by (rule allNum_bump)
  have n: "numSum (aggStep g acc r) = numSum acc + 1"
    unfolding s using k Cons.prems(2) by (rule numSum_bump)
  from Cons.prems(1) have rest: "list_all (\<lambda>r. ordinaryKey (if g = ''age'' then getAgeGroup (age r)
            else if g = ''gender'' then gender r
            else if g = ''region'' then region r else ''unknown'')) rs" by simp
  from Cons.IH [OF rest a] n show ?case by simp
qed

lemma aggStep_condition:
  "list_all (\<lambda>r. list_all ordinaryKey (symptoms r)) rs \<Longrightarrow> allNum acc \<Longrightarrow>
   allNum (foldl (aggStep ''condition'') acc rs)
   \<and> numSum (foldl (aggStep ''condition'') acc rs)
       = numSum acc + sum_list (map (\<lambda>r. length (symptoms r)) rs)"
proof (induction rs arbitrary: acc)
  case Nil
  then show ?case by simp
next
  case (Cons r rs)
  have s: "aggStep ''condition'' acc r = foldl (\<lambda>a k. bump k a) acc (symptoms r)"
    by (simp add: aggStep_def)
  from Cons.prems have b: "allNum (aggStep ''condition'' acc r)
      \<and> numSum (aggStep ''condition'' acc r) = numSum acc + length (symptoms r)"
    unfolding s by (intro bump_all_ordinary) simp_all
  from Cons.prems(1) have rest: "list_all (\<lambda>r. list_all ordinaryKey (symptoms r)) rs" by simp
  from Cons.IH [OF rest] b show ?case by simp
qed

lemma aggStep_medication:
  "list_all (\<lambda>r. list_all ordinaryKey (medicationHistory r)) rs \<Longrightarrow> allNum acc \<Longrightarrow>
   allNum (foldl (aggStep ''medication'') acc rs)
   \<and> numSum (foldl (aggStep ''medication'') acc rs)
       = numSum acc + sum_list (map (\<lambda>r. length (medicationHistory r)) rs)"
proof (induction rs arbitrary: acc)
  case Nil
  then show ?case by simp
next
  case (Cons r rs)
  have s: "aggStep ''medication'' acc r = foldl (\<lambda>a k. bump k a) acc (medicationHistory r)"
    by (simp add: aggStep_def)
  from Cons.prems have b: "allNum (aggStep ''medication'' acc r)
      \<and> numSum (aggStep ''medication'' acc r) = numSum acc + length (medicationHistory r)"
    unfolding s by (intro bump_all_ordinary) simp_all
  from Cons.prems(1) have rest: "list_all (\<lambda>r. list_all ordinaryKey (medicationHistory r)) rs" by simp
  from Cons.IH [OF rest] b show ?case by simp
qed

lemma aggregate_response:
  "groupCountSum (executeAggregateQuery t0 t1 rs req)
     = countSum (foldl (aggStep (groupBy req)) [] (aggFiltered req rs))
   \<and> respTotalMatched (executeAggregateQuery t0 t1 rs req) = Some (length (aggFiltered req rs))"
  by (simp add: groupCountSum_def respAggregations_def respTotalMatched_def
      executeAggregateQuery_def Let_def countSum_sortByCount)

lemma allNum_Nil: "allNum []" and numSum_Nil: "numSum [] = 0"
  by (simp_all add: allNum_def numSum_def)

text \<open>
  C2, as amended. For an aggregate request grouped by age, with any filter, the group
  counts of the response add up to its totalMatched, which is the number of records that
  pass the filter. The same holds grouped by gender or by region when no record that
  passes the filter has a gender, or a region, that is the name of a member of
  \<open>Object.prototype\<close>. Grouped by condition (medication), a record is counted once for
  each symptom (medication) it lists, so, when none of these is such a name, the counts
  add up to the number of symptom (medication) entries of the records that pass the
  filter.
\<close>

theorem group_counts_sum:
  "groupCountSum (executeAggregateQuery t0 t1 rs \<lparr> groupBy = ''age'', agg_filter = f \<rparr>)
     = respTotalMatched (executeAggregateQuery t0 t1 rs \<lparr> groupBy = ''age'', agg_filter = f \<rparr>)
   \<and> (list_all (\<lambda>r. ordinaryKey (gender r)) (aggFiltered \<lparr> groupBy = ''gender'', agg_filter = f \<rparr> rs)
      \<longrightarrow> groupCountSum (executeAggregateQuery t0 t1 rs \<lparr> groupBy = ''gender'', agg_filter = f \<rparr>)
          = respTotalMatched (executeAggregateQuery t0 t1 rs \<lparr> groupBy = ''gender'', agg_filter = f \<rparr>))
   \<and> (list_all (\<lambda>r. ordinaryKey (region r)) (aggFiltered \<lparr> groupBy = ''region'', agg_filter = f \<rparr> rs)
      \<longrightarrow> groupCountSum (executeAggregateQuery t0 t1 rs \<lparr> groupBy = ''region'', agg_filter = f \<rparr>)
          = respTotalMatched (executeAggregateQuery t0 t1 rs \<lparr> groupBy = ''region'', agg_filter = f \<rparr>))
   \<and> (list_all (\<lambda>r. list_all ordinaryKey (symptoms r))
         (aggFiltered \<lparr> groupBy = ''condition'', agg_filter = f \<rparr> rs)
      \<longrightarrow> groupCountSum (executeAggregateQuery t0 t1 rs \<lparr> groupBy = ''condition'', agg_filter = f \<rparr>)
          = Some (sum_list (map (\<lambda>r. length (symptoms r))
                    (aggFiltered \<lparr> groupBy = ''condition'', agg_filter = f \<rparr> rs))))
   \<and> (list_all (\<lambda>r. list_all ordinaryKey (medicationHistory r))
         (aggFiltered \<lparr> groupBy = ''medication'', agg_filter = f \<rparr> rs)
      \<longrightarrow> groupCountSum (executeAggregateQuery t0 t1 rs \<lparr> groupBy = ''medication'', agg_filter = f \<rparr>)
          = Some (sum_list (map (\<lambda>r. length (medicationHistory r))
                    (aggFiltered \<lparr> groupBy = ''medication'', agg_filter = f \<rparr> rs))))
   \<and> respTotalMatched (executeAggregateQuery t0 t1 rs \<lparr> groupBy = g, agg_filter = f \<rparr>)
     = Some (length (aggFiltered \<lparr> groupBy = g, agg_filter = f \<rparr> rs))"
proof (intro conjI impI)
  let ?age = "\<lparr> groupBy = ''age'', agg_filter = f \<rparr>"
  have "list_all (\<lambda>r. ordinaryKey (getAgeGroup (age r))) (aggFiltered ?age rs)"
    by (rule ageGroups_ordinary)
  then have "allNum (foldl (aggStep ''age'') [] (aggFiltered ?age rs))
      \<and> numSum (foldl (aggStep ''age'') [] (aggFiltered ?age rs)) = numSum [] + length (aggFiltered ?age rs)"
    by (intro aggStep_single) (simp_all add: allNum_Nil)
  then show "groupCountSum (executeAggregateQuery t0 t1 rs ?age)
     = respTotalMatched (executeAggregateQuery t0 t1 rs ?age)"
    by (simp add: aggregate_response countSum_allNum numSum_Nil)
next
  let ?req = "\<lparr> groupBy = ''gender'', agg_filter = f \<rparr>"
  assume "list_all (\<lambda>r. ordinaryKey (gender r)) (aggFiltered ?req rs)"
  then have "allNum (foldl (aggStep ''gender'') [] (aggFiltered ?req rs))
      \<and> numSum (foldl (aggStep ''gender'') [] (aggFiltered ?req rs)) = numSum [] + length (aggFiltered ?req rs)"
    by (intro aggStep_single) (simp_all add: allNum_Nil)
  then show "groupCountSum (executeAggregateQuery t0 t1 rs ?req)
     = respTotalMatched (executeAggregateQuery t0 t1 rs ?req)"
    by (simp add: aggregate_response countSum_allNum numSum_Nil)
next
  let ?req = "\<lparr> groupBy = ''region'', agg_filter = f \<rparr>"
  assume "list_all (\<lambda>r. ordinaryKey (region r)) (aggFiltered ?req rs)"
  then have "allNum (foldl (aggStep ''region'') [] (aggFiltered ?req rs))
      \<and> numSum (foldl (aggStep ''region'') [] (aggFiltered ?req rs)) = numSum [] + length (aggFiltered ?req rs)"
    by (intro aggStep_single) (simp_all add: allNum_Nil)
  then show "groupCountSum (executeAggregateQuery t0 t1 rs ?req)
     = respTotalMatched (executeAggregateQuery t0 t1 rs ?req)"
    by (simp add: aggregate_response countSum_allNum numSum_Nil)
next
  let ?req = "\<lparr> groupBy = ''condition'', agg_filter = f \<rparr>"
  assume "list_all (\<lambda>r. list_all ordinaryKey (symptoms r)) (aggFiltered ?req rs)"
  then have "allNum (foldl (aggStep ''condition'') [] (aggFiltered ?req rs))
      \<and> numSum (foldl (aggStep ''condition'') [] (aggFiltered ?req rs))
          = numSum [] + sum_list (map (\<lambda>r. length (symptoms r)) (aggFiltered ?req rs))"
    by (intro aggStep_condition) (simp_all add: allNum_Nil)
  then show "groupCountSum (executeAggregateQuery t0 t1 rs ?req)
     = Some (sum_list (map (\<lambda>r. length (symptoms r)) (aggFiltered ?req rs)))"
    by (simp add: aggregate_response countSum_allNum numSum_Nil)
next
  let ?req = "\<lparr> groupBy = ''medication'', agg_filter = f \<rparr>"
  assume "list_all (\<lambda>r. list_all ordinaryKey (medicationHistory r)) (aggFiltered ?req rs)"
  then have "allNum (foldl (aggStep ''medication'') [] (aggFiltered ?req rs))
      \<and> numSum (foldl (aggStep ''medication'') [] (aggFiltered ?req rs))
          = numSum [] + sum_list (map (\<lambda>r. length (medicationHistory r)) (aggFiltered ?req rs))"
    by (intro aggStep_medication) (simp_all add: allNum_Nil)
  then show "groupCountSum (executeAggregateQuery t0 t1 rs ?req)
     = Some (sum_list (map (\<lambda>r. length (medicationHistory r)) (aggFiltered ?req rs)))"
    by (simp add: aggregate_response countSum_allNum numSum_Nil)
next
  show "respTotalMatched (executeAggregateQuery t0 t1 rs \<lparr> groupBy = g, agg_filter = f \<rparr>)
     = Some (length (aggFiltered \<lparr> groupBy = g, agg_filter = f \<rparr> rs))"
    by (simp add: aggregate_response)
qed

theorem group_counts_sum_witness:
  "list_all (\<lambda>r. ordinaryKey (gender r)) (aggFiltered \<lparr> groupBy = ''gender'', agg_filter = None \<rparr> cohort)
   \<and> list_all (\<lambda>r. ordinaryKey (region r)) (aggFiltered \<lparr> groupBy = ''region'', agg_filter = None \<rparr> cohort)
   \<and> list_all (\<lambda>r. list_all ordinaryKey (symptoms r))
        (aggFiltered \<lparr> groupBy = ''condition'', agg_filter = None \<rparr> cohort)
   \<and> list_all (\<lambda>r. list_all ordinaryKey (medicationHistory r))
        (aggFiltered \<lparr> groupBy = ''medication'', agg_filter = None \<rparr> cohort)
   \<and> respAggregations (executeAggregateQuery 0 0 cohort \<lparr> groupBy = ''gender'', agg_filter = None \<rparr>)
       = Some [(''Male'', Num 2), (''Female'', Num 1)]
   \<and> groupCountSum (executeAggregateQuery 0 0 cohort \<lparr> groupBy = ''gender'', agg_filter = None \<rparr>) = Some 3
   \<and> respTotalMatched (executeAggregateQuery 0 0 cohort \<lparr> groupBy = ''gender'', agg_filter = None \<rparr>) = Some 3
   \<and> groupCountSum (executeAggregateQuery 0 0 cohort \<lparr> groupBy = ''region'', agg_filter = None \<rparr>) = Some 3
   \<and> groupCountSum (executeAggregateQuery 0 0 cohort \<lparr> groupBy = ''condition'', agg_filter = None \<rparr>) = Some 3
   \<and> groupCountSum (executeAggregateQuery 0 0 cohort \<lparr> groupBy = ''medication'', agg_filter = None \<rparr>) = Some 1"
proof -
  have f: "aggFiltered \<lparr> groupBy = g, agg_filter = None \<rparr> cohort = cohort" for g
    by (simp add: aggFiltered_def viaFilter_def filter_defs)
  have h1: "list_all (\<lambda>r. ordinaryKey (gender r)) cohort"
    by (simp add: cohort_def patient_def ordinaryKey_def objectPrototypeNames_def)
  have h2: "list_all (\<lambda>r. ordinaryKey (region r)) cohort"
    by (simp add: cohort_def patient_def ordinaryKey_def objectPrototypeNames_def)
  have h3: "list_all (\<lambda>r. list_all ordinaryKey (symptoms r)) cohort"
    by (simp add: cohort_def patient_def ordinaryKey_def objectPrototypeNames_def)
  have h4: "list_all (\<lambda>r. list_all ordinaryKey (medicationHistory r)) cohort"
    by (simp add: cohort_def patient_def ordinaryKey_def objectPrototypeNames_def)
  have a: "respAggregations (executeAggregateQuery 0 0 cohort \<lparr> groupBy = ''gender'', agg_filter = None \<rparr>)
       = Some [(''Male'', Num 2), (''Female'', Num 1)]"
    by (simp add: respAggregations_def executeAggregateQuery_def f)
       (simp add: cohort_def patient_def aggStep_def count_defs sortByCount_def)
  have l: "length cohort = 3"
    "sum_list (map (\<lambda>r. length (symptoms r)) cohort) = 3"
    "sum_list (map (\<lambda>r. length (medicationHistory r)) cohort) = 1"
    by (simp_all add: cohort_def patient_def)
  show ?thesis
    using h1 h2 h3 h4 a
      group_counts_sum [where ?t0.0 = 0 and ?t1.0 = 0 and rs = cohort and f = None and g = "''gender''"]
      group_counts_sum [where ?t0.0 = 0 and ?t1.0 = 0 and rs = cohort and f = None and g = "''region''"]
    by (simp add: f l)
qed

text \<open>
  One record with two symptoms, grouped by condition: the counts add up to 2 and
  totalMatched is 1.
\<close>

theorem condition_counts_exceed_matches:
  "respAggregations (executeAggregateQuery 0 0 [patient 52 [''Diabetes'', ''Hypertension'']]
       \<lparr> groupBy = ''condition'', agg_filter = None \<rparr>)
     = Some [(''Diabetes'', Num 1), (''Hypertension'', Num 1)]
   \<and> groupCountSum (executeAggregateQuery 0 0 [patient 52 [''Diabetes'', ''Hypertension'']]
       \<lparr> groupBy = ''condition'', agg_filter = None \<rparr>) = Some 2
   \<and> respTotalMatched (executeAggregateQuery 0 0 [patient 52 [''Diabetes'', ''Hypertension'']]
       \<lparr> groupBy = ''condition'', agg_filter = None \<rparr>) = Some 1"
  by (simp add: groupCountSum_def countSum_def respAggregations_def respTotalMatched_def
      executeAggregateQuery_def aggFiltered_def viaFilter_def filter_defs aggStep_def count_defs
      sortByCount_def patient_def)

text \<open>
  A gender that is the name of an inherited member is not counted as a number: under
  \<open>constructor\<close> the object holds a string, and under \<open>__proto__\<close> it holds nothing.
\<close>

lemma inherited_names_are_not_counted:
  "respAggregations (executeAggregateQuery 0 0 [(patient 30 [])\<lparr>gender := ''constructor''\<rparr>]
       \<lparr> groupBy = ''gender'', agg_filter = None \<rparr>)
     = Some [(''constructor'', Str ''function Object() { [native code] }1'')]
   \<and> respAggregations (executeAggregateQuery 0 0 [(patient 30 [])\<lparr>gender := ''__proto__''\<rparr>]
       \<lparr> groupBy = ''gender'', agg_filter = None \<rparr>) = Some []
   \<and> respTotalMatched (executeAggregateQuery 0 0 [(patient 30 [])\<lparr>gender := ''__proto__''\<rparr>]
       \<lparr> groupBy = ''gender'', agg_filter = None \<rparr>) = Some 1"
  by (simp add: respAggregations_def respTotalMatched_def
      executeAggregateQuery_def aggFiltered_def viaFilter_def filter_defs aggStep_def count_defs
      sortByCount_def patient_def)

section \<open>The parser on concrete queries\<close>

lemma trim_blank:
  assumes "list_all isSpace q"
  shows "trim q = []"
proof -
  from assms have "\<forall>x\<in>set q. isSpace x" by (simp only: list_all_iff)
  then have d: "dropWhile isSpace q = []" by (simp only: dropWhile_eq_Nil_conv)
  show ?thesis unfolding trim_def d by simp
qed

lemma search_select_empty: "search re_select [] = None" by (simp add: rx_defs)
lemma search_where_empty: "search re_where [] = None" by (simp add: rx_defs)
lemma search_group_empty: "search re_group [] = None" by (simp add: rx_defs)
lemma search_limit_empty: "search re_limit [] = None" by (simp add: rx_defs)

lemma sqlFiltered_defaultPlan: "sqlFiltered defaultPlan rs = rs"
  by (simp add: sqlFiltered_def defaultPlan_def filter_defs)

text \<open>
  C8. parseSimpleSQL is a total function of the query string: every operation it applies
  to a string is defined on all strings, and the model has no error result. On the empty
  query and on a query of white space only it returns the default plan: select
  \<open>["*"]\<close>, no predicate, no group-by and no limit. The executor then applies its own
  limit of 100 to all the records.
\<close>

theorem blank_query_default_plan:
  "list_all isSpace q \<Longrightarrow>
   parseSimpleSQL q = defaultPlan
   \<and> respRecords (executeSQLQuery t0 t1 rs q) = Some (take 100 rs)
   \<and> respTotalMatched (executeSQLQuery t0 t1 rs q) = Some (length rs)"
proof -
  assume "list_all isSpace q"
  then have t: "trim q = []" by (rule trim_blank)
  have p: "parseSimpleSQL q = defaultPlan"
    by (simp add: parseSimpleSQL_def t search_select_empty search_where_empty
        search_group_empty search_limit_empty defaultPlan_def del: search.simps)
  have "executePlan t0 t1 rs defaultPlan =
          \<lparr> success = True,
            data = Some \<lparr> records = Some (take 100 rs), aggregations = None,
                          stats = Some \<lparr> totalMatched = length rs, queryTime = t1 - t0 \<rparr> \<rparr>,
            error = None \<rparr>"
    by (simp add: executePlan_def sqlFiltered_defaultPlan slice0_def sqlLimit_def)
       (simp add: defaultPlan_def)
  then show ?thesis
    by (simp add: p executeSQLQuery_def respRecords_def respTotalMatched_def)
qed

theorem blank_query_default_plan_witness:
  "list_all isSpace [CHR '' '', CHR 0x09, CHR 0x0A, CHR '' '']
   \<and> parseSimpleSQL [CHR '' '', CHR 0x09, CHR 0x0A, CHR '' ''] = defaultPlan
   \<and> parseSimpleSQL [] = defaultPlan
   \<and> respRecords (executeSQLQuery 0 0 [patient 30 []] []) = Some [patient 30 []]"
proof -
  have a: "list_all isSpace [CHR '' '', CHR 0x09, CHR 0x0A, CHR '' '']"
    by (simp add: isSpace_def)
  have b: "list_all isSpace []" by simp
  show ?thesis
    using a blank_query_default_plan [OF a, of 0 0 "[patient 30 []]"]
      blank_query_default_plan [OF b, of 0 0 "[patient 30 []]"] by simp
qed

lemma likeQuery_plan:
  "parseSimpleSQL likeQuery = \<lparr> plan_select = [''*''], plan_where = [(''condition'', ''abet%'')],
      plan_groupBy = None, plan_limit = None \<rparr>"
  by (simp add: likeQuery_def parse_defs rx_defs)

lemma eqQuery_plan:
  "parseSimpleSQL eqQuery = \<lparr> plan_select = [''*''], plan_where = [(''condition'', ''Diabetes'')],
      plan_groupBy = None, plan_limit = None \<rparr>"
  by (simp add: eqQuery_def parse_defs rx_defs)

lemma like_not_matched:
  "sqlFiltered \<lparr> plan_select = [''*''], plan_where = [(''condition'', ''abet%'')],
      plan_groupBy = None, plan_limit = None \<rparr> [patient 52 [''Diabetes'', ''Hypertension'']] = []"
  by (simp add: sqlFiltered_def filter_defs patient_def toLowerCase_def lower_char_def char_of_def bit_Suc_0_iff)

lemma eq_matched:
  "sqlFiltered \<lparr> plan_select = [''*''], plan_where = [(''condition'', ''Diabetes'')],
      plan_groupBy = None, plan_limit = None \<rparr> [patient 52 [''Diabetes'', ''Hypertension'']]
     = [patient 52 [''Diabetes'', ''Hypertension'']]"
  by (simp add: sqlFiltered_def filter_defs patient_def toLowerCase_def lower_char_def char_of_def bit_Suc_0_iff)

text \<open>
  C4 asks that \<open>WHERE condition LIKE '%abet%'\<close> match a record with the symptoms
  Diabetes and Hypertension, the stored value being the text between the percent signs.
  The parser stores \<open>abet%\<close> instead: the group \<open>([^'"]+)\<close> is greedy and takes the
  trailing percent sign before \<open>%?\<close> is tried. The record is then not matched, while
  \<open>WHERE condition = 'Diabetes'\<close> matches it.
\<close>

theorem like_keeps_trailing_percent:
  "plan_where (parseSimpleSQL likeQuery) = [(''condition'', ''abet%'')]
   \<and> respRecords (executeSQLQuery 0 0 [patient 52 [''Diabetes'', ''Hypertension'']] likeQuery) = Some []
   \<and> respTotalMatched (executeSQLQuery 0 0 [patient 52 [''Diabetes'', ''Hypertension'']] likeQuery) = Some 0
   \<and> respRecords (executeSQLQuery 0 0 [patient 52 [''Diabetes'', ''Hypertension'']] eqQuery)
       = Some [patient 52 [''Diabetes'', ''Hypertension'']]"
  by (simp add: executeSQLQuery_def likeQuery_plan eqQuery_plan executePlan_def like_not_matched
      eq_matched respRecords_def respTotalMatched_def slice0_def sqlLimit_def)

section \<open>Grouping a textual query by age\<close>

lemma sqlFiltered_groupBy: "sqlFiltered (p\<lparr>plan_groupBy := g\<rparr>) rs = sqlFiltered p rs"
  by (simp add: sqlFiltered_def)

lemma sqlKey_age:
  "g \<in> set [''age_group'', ''agegroup'', ''age''] \<Longrightarrow> sqlKey g = (\<lambda>r. getAgeGroup (age r))"
  by (auto simp: sqlKey_def fun_eq_iff)

lemma getAgeGroup_table:
  "(getAgeGroup a = ''0-19'') = (a < 20)
   \<and> (getAgeGroup a = ''20-39'') = (20 \<le> a \<and> a < 40)
   \<and> (getAgeGroup a = ''40-59'') = (40 \<le> a \<and> a < 60)
   \<and> (getAgeGroup a = ''60-79'') = (60 \<le> a \<and> a < 80)
   \<and> (getAgeGroup a = ''80+'') = (80 \<le> a)"
  by (simp add: getAgeGroup_def)

text \<open>
  C3, as amended. When the plan of a textual query has the group-by age_group, agegroup
  or age, the executor applies the WHERE predicates, then counts each remaining record
  under the age group of the query route (below 20 "0-19", below 40 "20-39", below 60
  "40-59", below 80 "60-79", otherwise "80+"): every group that occurs is listed once
  with the number of its records. The response carries these counts and the matched
  count, and no record slice.
\<close>

theorem sql_group_by_age_buckets:
  assumes "g \<in> set [''age_group'', ''agegroup'', ''age'']"
  shows "executePlan t0 t1 rs (p\<lparr>plan_groupBy := Some g\<rparr>) =
           \<lparr> success = True,
             data = Some \<lparr> records = None,
                           aggregations = Some (tally (\<lambda>r. getAgeGroup (age r)) (sqlFiltered p rs)),
                           stats = Some \<lparr> totalMatched = length (sqlFiltered p rs),
                                          queryTime = t1 - t0 \<rparr> \<rparr>,
             error = None \<rparr>
         \<and> distinct (map fst (tally (\<lambda>r. getAgeGroup (age r)) (sqlFiltered p rs)))
         \<and> map_of (tally (\<lambda>r. getAgeGroup (age r)) (sqlFiltered p rs)) b =
             (if length (filter (\<lambda>r. getAgeGroup (age r) = b) (sqlFiltered p rs)) = 0 then None
              else Some (Num (length (filter (\<lambda>r. getAgeGroup (age r) = b) (sqlFiltered p rs)))))
         \<and> (getAgeGroup a = ''0-19'') = (a < 20)
         \<and> (getAgeGroup a = ''20-39'') = (20 \<le> a \<and> a < 40)
         \<and> (getAgeGroup a = ''40-59'') = (40 \<le> a \<and> a < 60)
         \<and> (getAgeGroup a = ''60-79'') = (60 \<le> a \<and> a < 80)
         \<and> (getAgeGroup a = ''80+'') = (80 \<le> a)"
proof -
  from assms have g: "g \<noteq> []" by auto
  have "executePlan t0 t1 rs (p\<lparr>plan_groupBy := Some g\<rparr>) =
           \<lparr> success = True,
             data = Some \<lparr> records = None,
                           aggregations = Some (tally (\<lambda>r. getAgeGroup (age r)) (sqlFiltered p rs)),
                           stats = Some \<lparr> totalMatched = length (sqlFiltered p rs),
                                          queryTime = t1 - t0 \<rparr> \<rparr>,
             error = None \<rparr>"
    by (simp add: executePlan_def Let_def sqlFiltered_groupBy sqlKey_age [OF assms] g)
  then show ?thesis
    using getAgeGroup_table [of a]
    by (simp add: distinct_tally map_of_tally [OF ageGroups_ordinary])
qed

theorem sql_group_by_age_buckets_witness:
  "''age_group'' \<in> set [''age_group'', ''agegroup'', ''age'']
   \<and> executePlan 0 5 [patient 18 [], patient 19 [], patient 45 []]
        (femalePlan\<lparr>plan_groupBy := Some ''age_group''\<rparr>) =
       \<lparr> success = True,
         data = Some \<lparr> records = None, aggregations = Some [(''0-19'', Num 2), (''40-59'', Num 1)],
                       stats = Some \<lparr> totalMatched = 3, queryTime = 5 \<rparr> \<rparr>,
         error = None \<rparr>"
proof -
  have m: "''age_group'' \<in> set [''age_group'', ''agegroup'', ''age'']" by simp
  have f: "sqlFiltered femalePlan [patient 18 [], patient 19 [], patient 45 []]
      = [patient 18 [], patient 19 [], patient 45 []]"
    by (simp add: femalePlan_def sqlFiltered_def filter_defs patient_def toLowerCase_def
        lower_char_def char_of_def bit_Suc_0_iff)
  have t: "tally (\<lambda>r. getAgeGroup (age r)) [patient 18 [], patient 19 [], patient 45 []]
      = [(''0-19'', Num 2), (''40-59'', Num 1)]"
    by (simp add: tally_def count_defs getAgeGroup_def patient_def)
  show ?thesis
    using m sql_group_by_age_buckets [OF m, of 0 5 "[patient 18 [], patient 19 [], patient 45 []]"
        femalePlan "''0-19''" 18]
    by (simp add: f t)
qed

lemma groupAgeQuery_plan:
  "parseSimpleSQL ''SELECT * FROM ehr_records GROUP BY age'' =
     \<lparr> plan_select = [''*''], plan_where = [], plan_groupBy = Some ''age'', plan_limit = None \<rparr>"
  by (simp add: parse_defs rx_defs)

text \<open>
  A record of age 18 under \<open>GROUP BY age\<close> is counted in "0-19"; the age groups of the
  statistics put 18 in "18-29".
\<close>

theorem sql_age_group_is_not_service_bucket:
  "respAggregations (executeSQLQuery 0 0 [patient 18 []] ''SELECT * FROM ehr_records GROUP BY age'')
     = Some [(''0-19'', Num 1)]
   \<and> getAgeGroup_service 18 = ''18-29''"
  by (simp add: executeSQLQuery_def groupAgeQuery_plan executePlan_def Let_def respAggregations_def
      sqlFiltered_def filter_defs tally_def count_defs sqlKey_def getAgeGroup_def
      getAgeGroup_service_def patient_def)

section \<open>A failed read\<close>

lemma load_hit:
  "cachedRecords m = Some rs \<Longrightarrow> cacheAlive now m \<Longrightarrow> loadEHRData disk now now' m = (rs, m)"
  by (simp add: loadEHRData_def)

lemma load_fail:
  "\<not> (cachedRecords m \<noteq> None \<and> cacheAlive now m) \<Longrightarrow> disk (fsReads m) = Inl err \<Longrightarrow>
   loadEHRData disk now now' m
     = ([], m\<lparr> fsReads := fsReads m + 1, consoleErrors := consoleErrors m @ [err] \<rparr>)"
  by (auto simp: loadEHRData_def)

lemma load_reparse:
  "\<not> (cachedRecords m \<noteq> None \<and> cacheAlive now m) \<Longrightarrow> disk (fsReads m) = Inr content \<Longrightarrow>
   loadEHRData disk now now' m
     = (parseContent content,
        m\<lparr> cachedRecords := Some (parseContent content), cacheTimestamp := Some now',
           cachedStats := None, fsReads := fsReads m + 1 \<rparr>)"
  by (auto simp: loadEHRData_def)

text \<open>
  C5, as amended. When the cache is absent or expired and reading the file fails,
  loadEHRData reads once and not again, leaves the cached records, statistics and time
  stamp as they were, returns the empty list and writes the error to the console. The
  error is not passed on: a filter query on these records answers with success, no
  record, a matched count of 0 and no error.
\<close>

theorem failed_read_is_swallowed:
  assumes "\<not> (cachedRecords m \<noteq> None \<and> cacheAlive t1 m)" and "disk (fsReads m) = Inl err"
  shows "loadEHRData disk t1 t2 m
           = ([], m\<lparr> fsReads := fsReads m + 1, consoleErrors := consoleErrors m @ [err] \<rparr>)
         \<and> cachedRecords (snd (loadEHRData disk t1 t2 m)) = cachedRecords m
         \<and> cachedStats (snd (loadEHRData disk t1 t2 m)) = cachedStats m
         \<and> cacheTimestamp (snd (loadEHRData disk t1 t2 m)) = cacheTimestamp m
         \<and> fsReads (snd (loadEHRData disk t1 t2 m)) = fsReads m + 1
         \<and> fst (runFilterQuery disk t0 t1 t2 t3 m request)
             = \<lparr> success = True,
                 data = Some \<lparr> records = Some [], aggregations = None,
                               stats = Some \<lparr> totalMatched = 0, queryTime = t3 - t0 \<rparr> \<rparr>,
                 error = None \<rparr>"
proof -
  have l: "loadEHRData disk t1 t2 m
           = ([], m\<lparr> fsReads := fsReads m + 1, consoleErrors := consoleErrors m @ [err] \<rparr>)"
    using assms by (rule load_fail)
  have s: "searchRecords opts [] = []" for opts
    by (simp add: searchRecords_def searchFiltered_def slice0_def byCondition_def byMedication_def
        byRegion_def byAgeMin_def byAgeMax_def byGender_def byDiagnosis_def split: option.split)
  show ?thesis
    by (simp add: l runFilterQuery_def executeFilterQuery_def s)
qed

theorem failed_read_is_swallowed_witness:
  "\<not> (cachedRecords loadedModule \<noteq> None \<and> cacheAlive 400000 loadedModule)
   \<and> failingDisk (fsReads loadedModule) = Inl ''ENOENT: no such file or directory''
   \<and> loadEHRData failingDisk 400000 400001 loadedModule
       = ([], \<lparr> cachedRecords = Some [sampleRecord], cachedStats = None,
               cacheTimestamp = Some 1001, fsReads = 2,
               consoleErrors = [''ENOENT: no such file or directory''] \<rparr>)
   \<and> fst (runFilterQuery failingDisk 399999 400000 400001 400002 loadedModule
            \<lparr> filters = noFilters, req_limit = None \<rparr>)
       = \<lparr> success = True,
           data = Some \<lparr> records = Some [], aggregations = None,
                         stats = Some \<lparr> totalMatched = 0, queryTime = 3 \<rparr> \<rparr>,
           error = None \<rparr>"
proof -
  have a: "\<not> (cachedRecords loadedModule \<noteq> None \<and> cacheAlive 400000 loadedModule)"
    by (simp add: loadedModule_def cacheAlive_def CACHE_TTL_MS_def)
  have b: "failingDisk (fsReads loadedModule) = Inl ''ENOENT: no such file or directory''"
    by (simp add: failingDisk_def)
  show ?thesis
    using a b failed_read_is_swallowed [where m = loadedModule and disk = failingDisk
        and ?t1.0 = 400000 and ?t2.0 = 400001 and ?t0.0 = 399999 and ?t3.0 = 400002
        and err = "''ENOENT: no such file or directory''"
        and request = "\<lparr> filters = noFilters, req_limit = None \<rparr>"]
    by (simp add: loadedModule_def)
qed

text \<open>
  With nothing cached and a file that cannot be read, a filter request is answered with
  \<open>success = True\<close> and no error; the error is on the console only.
\<close>

theorem failed_read_answers_success:
  "fst (runFilterQuery failingDisk 999 1000 1001 1002 (startModule :: unit Module)
          \<lparr> filters = noFilters, req_limit = None \<rparr>)
     = \<lparr> success = True,
         data = Some \<lparr> records = Some [], aggregations = None,
                       stats = Some \<lparr> totalMatched = 0, queryTime = 3 \<rparr> \<rparr>,
         error = None \<rparr>
   \<and> consoleErrors (snd (runFilterQuery failingDisk 999 1000 1001 1002 (startModule :: unit Module)
          \<lparr> filters = noFilters, req_limit = None \<rparr>)) = [''ENOENT: no such file or directory'']"
  by (simp add: runFilterQuery_def loadEHRData_def startModule_def failingDisk_def cacheAlive_def
      executeFilterQuery_def searchRecords_def searchFiltered_def slice0_def byCondition_def
      byMedication_def byRegion_def byAgeMin_def byAgeMax_def byGender_def byDiagnosis_def
      filterOptions_def noFilters_def unlessAll_def searchLimit_def)

section \<open>Records and statistics in the cache\<close>

lemma expiredFrom_mono: "expiredFrom t m \<Longrightarrow> t \<le> t' \<Longrightarrow> expiredFrom t' m"
  by (auto simp: expiredFrom_def split: option.splits)

lemma not_alive_expired: "\<not> cacheAlive t m \<Longrightarrow> expiredFrom t m"
  by (auto simp: expiredFrom_def cacheAlive_def split: option.splits)

lemma alive_not_expired: "cacheAlive t' m \<Longrightarrow> t \<le> t' \<Longrightarrow> \<not> expiredFrom t m"
  by (auto simp: expiredFrom_def cacheAlive_def split: option.splits)

lemma statsInv_mono: "statsInv build m t \<Longrightarrow> t \<le> t' \<Longrightarrow> statsInv build m t'"
  unfolding statsInv_def by (blast intro: expiredFrom_mono)

lemma statsInv_start: "statsInv build startModule t"
  by (simp add: statsInv_def startModule_def)

lemma statsInv_load:
  assumes "statsInv build m t" and "t \<le> t1" and "t1 \<le> t2"
  shows "statsInv build (snd (loadEHRData disk t1 t2 m)) t2"
proof (cases "cachedRecords m \<noteq> None \<and> cacheAlive t1 m")
  case True
  then have "snd (loadEHRData disk t1 t2 m) = m" by (auto simp: loadEHRData_def)
  with assms show ?thesis by (simp add: statsInv_mono)
next
  case False
  show ?thesis
  proof (cases "disk (fsReads m)")
    case (Inl err)
    have "statsInv build m t2" using assms by (simp add: statsInv_mono)
    then show ?thesis
      unfolding load_fail [where disk = disk, OF False Inl] by (simp add: statsInv_def expiredFrom_def)
  next
    case (Inr content)
    show ?thesis
      unfolding load_reparse [where disk = disk, OF False Inr] by (simp add: statsInv_def)
  qed
qed

lemma statsInv_stats:
  assumes "statsInv build m t" and "t \<le> t1" and "t1 \<le> t2" and "t2 \<le> t3" and "t3 \<le> t4"
  shows "statsInv build (snd (getEHRStatistics disk build t1 t2 t3 t4 m)) t4"
proof (cases "cachedStats m \<noteq> None \<and> cacheAlive t1 m")
  case True
  then have "snd (getEHRStatistics disk build t1 t2 t3 t4 m) = m"
    by (auto simp: getEHRStatistics_def)
  with assms show ?thesis by (simp add: statsInv_mono)
next
  case miss: False
  show ?thesis
  proof (cases "cachedRecords m \<noteq> None \<and> cacheAlive t2 m")
    case True
    then obtain rs where rs: "cachedRecords m = Some rs" by auto
    with True have "loadEHRData disk t2 t3 m = (rs, m)" by (simp add: load_hit)
    with miss have "snd (getEHRStatistics disk build t1 t2 t3 t4 m) = m\<lparr>cachedStats := Some (build t4 rs)\<rparr>"
      by (auto simp: getEHRStatistics_def)
    with assms(1) rs show ?thesis by (auto simp: statsInv_def)
  next
    case False
    show ?thesis
    proof (cases "disk (fsReads m)")
      case (Inl err)
      from assms(1) False have "cacheTimestamp m = None \<or> \<not> cacheAlive t2 m"
        by (auto simp: statsInv_def)
      then have "expiredFrom t2 m"
      proof
        assume "cacheTimestamp m = None"
        then show ?thesis by (simp add: expiredFrom_def)
      next
        assume "\<not> cacheAlive t2 m"
        then show ?thesis by (rule not_alive_expired)
      qed
      then have e: "expiredFrom t4 m" using assms by (auto intro: expiredFrom_mono)
      from miss have "snd (getEHRStatistics disk build t1 t2 t3 t4 m)
          = m\<lparr> fsReads := fsReads m + 1, consoleErrors := consoleErrors m @ [err],
               cachedStats := Some (build t4 []) \<rparr>"
        by (auto simp: getEHRStatistics_def load_fail [where disk = disk, OF False Inl])
      with assms(1) e show ?thesis by (auto simp: statsInv_def expiredFrom_def)
    next
      case (Inr content)
      from miss have "snd (getEHRStatistics disk build t1 t2 t3 t4 m)
          = m\<lparr> cachedRecords := Some (parseContent content), cacheTimestamp := Some t3,
               cachedStats := None, fsReads := fsReads m + 1,
               cachedStats := Some (build t4 (parseContent content)) \<rparr>"
        by (auto simp: getEHRStatistics_def load_reparse [where disk = disk, OF False Inr])
      then show ?thesis by (auto simp: statsInv_def)
    qed
  qed
qed

lemma reachable_statsInv: "reachable disk build m t \<Longrightarrow> statsInv build m t"
  by (induction rule: reachable.induct) (auto intro: statsInv_start statsInv_load statsInv_stats)

lemma sampleCsv_records: "parseContent sampleCsv = [sampleRecord]"
  by (simp add: parseContent_def sampleCsv_def sampleRecord_def parseCSVRow_def trim_def isSpace_def
      parseInt_def digitsValue_def isDigit_def parseListField_def parsePastVisits_def visitOf_def
      re_visit_def lower_char_def char_of_def bit_Suc_0_iff)

lemma stats_alive_records:
  assumes "cachedRecords m \<noteq> None" and "cacheAlive t2 m"
  shows "cachedRecords (snd (getEHRStatistics disk build t1 t2 t3 t4 m)) = cachedRecords m
       \<and> cacheTimestamp (snd (getEHRStatistics disk build t1 t2 t3 t4 m)) = cacheTimestamp m
       \<and> fsReads (snd (getEHRStatistics disk build t1 t2 t3 t4 m)) = fsReads m"
proof -
  from assms obtain rs where "cachedRecords m = Some rs" by auto
  with assms have "loadEHRData disk t2 t3 m = (rs, m)" by (simp add: load_hit)
  then show ?thesis by (simp add: getEHRStatistics_def)
qed

lemma served_stats_current:
  assumes "reachable disk build m t" and "t \<le> t1" and "cachedStats m = Some s" and "cacheAlive t1 m"
  shows "getEHRStatistics disk build t1 t2 t3 t4 m = (s, m)
       \<and> (\<exists>t' rs. cachedRecords m = Some rs \<and> s = build t' rs)"
proof -
  from assms(1) have "statsInv build m t" by (rule reachable_statsInv)
  moreover from assms(4,2) have "\<not> expiredFrom t m" by (rule alive_not_expired)
  ultimately have "\<exists>t' rs. cachedRecords m = Some rs \<and> s = build t' rs"
    using assms(3) by (auto simp: statsInv_def)
  moreover from assms(3,4) have "getEHRStatistics disk build t1 t2 t3 t4 m = (s, m)"
    by (simp add: getEHRStatistics_def)
  ultimately show ?thesis by simp
qed

text \<open>
  C6. When loadEHRData parses the file again, it stores the new records and clears the
  cached statistics; any call of it either leaves records, time stamp and statistics as
  they were or leaves no statistics cached. Hence, in every state the module reaches
  while the clock does not run backwards, statistics that getEHRStatistics serves from
  its cache were built from the records now cached. And when the record cache is alive,
  getEHRStatistics, whether or not it builds statistics anew, keeps the cached records
  and their time stamp and reads no file.
\<close>

theorem reload_invalidates_statistics:
  "(\<not> (cachedRecords m \<noteq> None \<and> cacheAlive t1 m) \<and> disk (fsReads m) = Inr content
      \<longrightarrow> cachedRecords (snd (loadEHRData disk t1 t2 m)) = Some (parseContent content)
          \<and> cachedStats (snd (loadEHRData disk t1 t2 m)) = None)
   \<and> (cachedRecords (snd (loadEHRData disk t1 t2 m)) = cachedRecords m
        \<and> cacheTimestamp (snd (loadEHRData disk t1 t2 m)) = cacheTimestamp m
        \<and> cachedStats (snd (loadEHRData disk t1 t2 m)) = cachedStats m
      \<or> cachedStats (snd (loadEHRData disk t1 t2 m)) = None)
   \<and> (reachable disk build m t \<and> t \<le> t1 \<and> cachedStats m = Some s \<and> cacheAlive t1 m
      \<longrightarrow> getEHRStatistics disk build t1 t2 t3 t4 m = (s, m)
          \<and> (\<exists>t' rs. cachedRecords m = Some rs \<and> s = build t' rs))
   \<and> (cachedRecords m \<noteq> None \<and> cacheAlive t2 m
      \<longrightarrow> cachedRecords (snd (getEHRStatistics disk build t1 t2 t3 t4 m)) = cachedRecords m
          \<and> cacheTimestamp (snd (getEHRStatistics disk build t1 t2 t3 t4 m)) = cacheTimestamp m
          \<and> fsReads (snd (getEHRStatistics disk build t1 t2 t3 t4 m)) = fsReads m)"
proof (intro conjI impI)
  assume a: "\<not> (cachedRecords m \<noteq> None \<and> cacheAlive t1 m) \<and> disk (fsReads m) = Inr content"
  then have l: "loadEHRData disk t1 t2 m
     = (parseContent content,
        m\<lparr> cachedRecords := Some (parseContent content), cacheTimestamp := Some t2,
           cachedStats := None, fsReads := fsReads m + 1 \<rparr>)"
    by (intro load_reparse) simp_all
  show "cachedRecords (snd (loadEHRData disk t1 t2 m)) = Some (parseContent content)"
    by (simp add: l)
  show "cachedStats (snd (loadEHRData disk t1 t2 m)) = None"
    by (simp add: l)
next
  show "cachedRecords (snd (loadEHRData disk t1 t2 m)) = cachedRecords m
        \<and> cacheTimestamp (snd (loadEHRData disk t1 t2 m)) = cacheTimestamp m
        \<and> cachedStats (snd (loadEHRData disk t1 t2 m)) = cachedStats m
      \<or> cachedStats (snd (loadEHRData disk t1 t2 m)) = None"
    by (auto simp: loadEHRData_def split: sum.splits)
next
  assume a: "reachable disk build m t \<and> t \<le> t1 \<and> cachedStats m = Some s \<and> cacheAlive t1 m"
  then have "getEHRStatistics disk build t1 t2 t3 t4 m = (s, m)
       \<and> (\<exists>t' rs. cachedRecords m = Some rs \<and> s = build t' rs)"
    using served_stats_current [of disk build m t t1 s t2 t3 t4] by simp
  then show "getEHRStatistics disk build t1 t2 t3 t4 m = (s, m)"
    and "\<exists>t' rs. cachedRecords m = Some rs \<and> s = build t' rs" by simp_all
next
  assume a: "cachedRecords m \<noteq> None \<and> cacheAlive t2 m"
  then have r: "cachedRecords (snd (getEHRStatistics disk build t1 t2 t3 t4 m)) = cachedRecords m
       \<and> cacheTimestamp (snd (getEHRStatistics disk build t1 t2 t3 t4 m)) = cacheTimestamp m
       \<and> fsReads (snd (getEHRStatistics disk build t1 t2 t3 t4 m)) = fsReads m"
    by (intro stats_alive_records) simp_all
  from r show "cachedRecords (snd (getEHRStatistics disk build t1 t2 t3 t4 m)) = cachedRecords m" by simp
  from r show "cacheTimestamp (snd (getEHRStatistics disk build t1 t2 t3 t4 m)) = cacheTimestamp m" by simp
  from r show "fsReads (snd (getEHRStatistics disk build t1 t2 t3 t4 m)) = fsReads m" by simp
qed

lemma load_start: "snd (loadEHRData sampleDisk 1000 1001 (startModule :: (int \<times> nat) Module)) = loadedModule"
  by (simp add: loadEHRData_def startModule_def sampleDisk_def sampleCsv_records loadedModule_def
      cacheAlive_def)

lemma stats_loaded:
  "snd (getEHRStatistics sampleDisk sampleBuild 2000 2001 2002 2003 loadedModule) = warmModule"
  by (simp add: getEHRStatistics_def loadEHRData_def loadedModule_def warmModule_def cacheAlive_def
      CACHE_TTL_MS_def sampleBuild_def)

lemma reachable_warm: "reachable sampleDisk sampleBuild warmModule 2003"
proof -
  have "reachable sampleDisk sampleBuild (startModule :: (int \<times> nat) Module) 1000"
    by (rule reachable.start)
  then have "reachable sampleDisk sampleBuild
      (snd (loadEHRData sampleDisk 1000 1001 (startModule :: (int \<times> nat) Module))) 1001"
    by (rule reachable.load) simp_all
  then have "reachable sampleDisk sampleBuild loadedModule 1001" by (simp only: load_start)
  then have "reachable sampleDisk sampleBuild
      (snd (getEHRStatistics sampleDisk sampleBuild 2000 2001 2002 2003 loadedModule)) 2003"
    by (rule reachable.stats) simp_all
  then show ?thesis by (simp only: stats_loaded)
qed

theorem reload_invalidates_statistics_witness:
  "\<not> (cachedRecords (startModule :: (int \<times> nat) Module) \<noteq> None
       \<and> cacheAlive 1000 (startModule :: (int \<times> nat) Module))
   \<and> sampleDisk (fsReads (startModule :: (int \<times> nat) Module)) = Inr sampleCsv
   \<and> cachedRecords (snd (loadEHRData sampleDisk 1000 1001 (startModule :: (int \<times> nat) Module)))
       = Some [sampleRecord]
   \<and> cachedStats (snd (loadEHRData sampleDisk 1000 1001 (startModule :: (int \<times> nat) Module))) = None
   \<and> cachedRecords loadedModule \<noteq> None \<and> cacheAlive 2001 loadedModule
   \<and> fsReads (snd (getEHRStatistics sampleDisk sampleBuild 2000 2001 2002 2003 loadedModule)) = 1
   \<and> cachedRecords (snd (getEHRStatistics sampleDisk sampleBuild 2000 2001 2002 2003 loadedModule))
       = Some [sampleRecord]
   \<and> reachable sampleDisk sampleBuild warmModule 2003 \<and> cachedStats warmModule = Some (2003, 1)
   \<and> cacheAlive 3000 warmModule
   \<and> getEHRStatistics sampleDisk sampleBuild 3000 3001 3002 3003 warmModule = ((2003, 1), warmModule)"
proof -
  have h1: "\<not> (cachedRecords (startModule :: (int \<times> nat) Module) \<noteq> None
       \<and> cacheAlive 1000 (startModule :: (int \<times> nat) Module))"
    by (simp add: startModule_def)
  have h2: "sampleDisk (fsReads (startModule :: (int \<times> nat) Module)) = Inr sampleCsv"
    by (simp add: sampleDisk_def)
  have h3: "cachedRecords loadedModule \<noteq> None \<and> cacheAlive 2001 loadedModule"
    by (simp add: loadedModule_def cacheAlive_def CACHE_TTL_MS_def)
  have h4: "reachable sampleDisk sampleBuild warmModule 2003 \<and> (2003::int) \<le> 3000
      \<and> cachedStats warmModule = Some (2003, 1) \<and> cacheAlive 3000 warmModule"
    by (simp add: reachable_warm) (simp add: warmModule_def cacheAlive_def CACHE_TTL_MS_def)
  have f: "fsReads loadedModule = 1" "cachedRecords loadedModule = Some [sampleRecord]"
    by (simp_all add: loadedModule_def)
  show ?thesis
    using h1 h2 h3 h4
      reload_invalidates_statistics [where m = "startModule :: (int \<times> nat) Module"
        and disk = sampleDisk and content = sampleCsv and ?t1.0 = 1000 and ?t2.0 = 1001
        and build = sampleBuild and t = 0 and s = "(0, 0)" and ?t3.0 = 0 and ?t4.0 = 0]
      reload_invalidates_statistics [where m = loadedModule
        and disk = sampleDisk and content = sampleCsv and ?t1.0 = 2000 and ?t2.0 = 2001
        and build = sampleBuild and t = 0 and s = "(0, 0)" and ?t3.0 = 2002 and ?t4.0 = 2003]
      reload_invalidates_statistics [where m = warmModule
        and disk = sampleDisk and content = sampleCsv and ?t1.0 = 3000 and ?t2.0 = 3001
        and build = sampleBuild and t = 2003 and s = "(2003, 1)" and ?t3.0 = 3002 and ?t4.0 = 3003]
    by (simp add: sampleCsv_records f)
qed

end
